theory Spec2Isabelle
  imports Main "HOL-Library.Word" "HOL-Library.Sublist"
begin

unbundle bit_operations_syntax

section \<open>Data model\<close>

text \<open>
  Go maps are partial functions, Go slices are lists, a \<open>cpuset.CPUSet\<close> is a set of
  CPU ids.  \<open>resource.Quantity\<close> is an exact decimal; it is modelled by the integer
  number of milli-units it denotes, so that \<open>Cmp\<close>, \<open>Add\<close>, \<open>Sub\<close> and \<open>IsZero\<close>
  are the integer operations.  \<open>types.UID\<close>, resource names and the policy types of
  \<open>schedulingconfig\<close> are Go strings.  Go's \<open>int\<close> is modelled by \<open>int\<close>: the
  only arithmetic on it below is counting references and sizes.
\<close>

type_synonym UID = string
type_synonym Quantity = int
type_synonym ResourceList = "string \<rightharpoonup> Quantity"
type_synonym CPUSet = "int set"
type_synonym CPUExclusivePolicy = string
type_synonym CPUBindPolicy = string
type_synonym NUMAAllocateStrategy = string

text \<open>
  Modelled from the spec: the type \<open>CPUInfo\<close> (file cpu_topology.go is not part of the
  sources at hand).  The spec's data model gives a \<open>CPUDetails\<close> entry the core, socket
  and NUMA membership of the CPU, its \<open>RefCount\<close> and its \<open>ExclusivePolicy\<close>; the
  two last fields are the ones node_allocation.go reads and writes.
\<close>

record CPUInfo =
  CPUID :: int
  CoreID :: int
  SocketID :: int
  NodeID :: int
  RefCount :: int
  ExclusivePolicy :: CPUExclusivePolicy

type_synonym CPUDetails = "int \<rightharpoonup> CPUInfo"

text \<open>The zero value of the Go struct, which indexing a map at a missing key yields.\<close>

definition zeroCPUInfo :: CPUInfo where
  "zeroCPUInfo = \<lparr>CPUID = 0, CoreID = 0, SocketID = 0, NodeID = 0, RefCount = 0,
     ExclusivePolicy = []\<rparr>"

definition lookupCPUInfo :: "CPUDetails \<Rightarrow> int \<Rightarrow> CPUInfo" where
  "lookupCPUInfo d cpuID = (case d cpuID of Some info \<Rightarrow> info | None \<Rightarrow> zeroCPUInfo)"

text \<open>
  Modelled from the spec: the type \<open>CPUTopology\<close> with its derived \<open>CPUsPerCore\<close> and
  \<open>IsValid\<close> (cpu_topology.go).  What the two methods compute is not in the sources;
  they are carried as fields, so every theorem below holds whatever they compute.
\<close>

record CPUTopology =
  CPUDetails :: CPUDetails
  CPUsPerCore :: int
  IsValid :: bool

record NUMANodeResource =
  Node :: int
  Resources :: ResourceList

text \<open>
  Modelled from the spec: the type \<open>TopologyOptions\<close> (its declaration is not part of
  the sources at hand), with the fields the code below reads.  \<open>CPUTopology\<close> is a
  pointer: \<open>None\<close> is nil.  The amplification ratios, which none of the functions
  below reads, are left out.
\<close>

record TopologyOptions =
  CPUTopology :: "CPUTopology option"
  ReservedCPUs :: CPUSet
  MaxRefCount :: int
  NUMANodeResources :: "NUMANodeResource list"

text \<open>What the code below reads of a Kubernetes pod and node.\<close>

record corev1_Pod =
  UID :: UID
  Namespace :: string
  Name :: string

record corev1_Node =
  Name :: string
  Labels :: "string \<rightharpoonup> string"

record PodAllocation =
  UID :: UID
  Namespace :: string
  Name :: string
  CPUSet :: CPUSet
  CPUExclusivePolicy :: CPUExclusivePolicy
  NUMANodeResources :: "NUMANodeResource list"

text \<open>The lock of the Go struct is left out: every operation below is one critical section.\<close>

record NodeAllocation =
  nodeName :: string
  allocatedPods :: "UID \<rightharpoonup> PodAllocation"
  allocatedCPUs :: CPUDetails
  allocatedResources :: "int \<rightharpoonup> NUMANodeResource"

section \<open>Library operations\<close>

text \<open>
  \<open>quotav1.Add\<close>: the keys of both lists, quantities added where both have the key.
\<close>

definition Add :: "ResourceList \<Rightarrow> ResourceList \<Rightarrow> ResourceList" where
  "Add a b = (\<lambda>key.
     case a key of
       Some v \<Rightarrow> (case b key of Some other \<Rightarrow> Some (v + other) | None \<Rightarrow> Some v)
     | None \<Rightarrow> b key)"

text \<open>
  \<open>quotav1.SubtractWithNonNegativeResult\<close>: \<open>a - b\<close> on the keys of \<open>a\<close>, never below
  zero; a key of \<open>b\<close> alone is reported with quantity zero.
\<close>

definition SubtractWithNonNegativeResult :: "ResourceList \<Rightarrow> ResourceList \<Rightarrow> ResourceList" where
  "SubtractWithNonNegativeResult a b = (\<lambda>key.
     case a key of
       Some v \<Rightarrow>
         (let quantity = (case b key of Some other \<Rightarrow> v - other | None \<Rightarrow> v)
          in if quantity > 0 then Some quantity else Some 0)
     | None \<Rightarrow> (case b key of Some other \<Rightarrow> Some 0 | None \<Rightarrow> None))"

text \<open>\<open>quotav1.IsZero\<close>: every quantity of the list is zero.\<close>

definition IsZero :: "ResourceList \<Rightarrow> bool" where
  "IsZero a = (\<forall>key v. a key = Some v \<longrightarrow> v = 0)"

text \<open>
  \<open>quotav1.LessThanOrEqual a b\<close>: on every key of \<open>b\<close> that \<open>a\<close> has too, the quantity of
  \<open>a\<close> does not exceed that of \<open>b\<close>.
\<close>

definition LessThanOrEqual :: "ResourceList \<Rightarrow> ResourceList \<Rightarrow> bool" where
  "LessThanOrEqual a b =
     (\<forall>key v other. b key = Some v \<longrightarrow> a key = Some other \<longrightarrow> \<not> other > v)"

text \<open>
  Modelled from the spec: \<open>CPUSet.ToSliceNoSort\<close> (package cpuset is not part of the
  sources at hand).  It lists the elements of the set once each, in no promised order;
  the ascending order stands for it, and nothing proved below depends on the order.
\<close>

definition ToSliceNoSort :: "CPUSet \<Rightarrow> int list" where
  "ToSliceNoSort s = sorted_list_of_set s"

section \<open>NodeAllocation\<close>

definition NewNodeAllocation :: "string \<Rightarrow> NodeAllocation" where
  "NewNodeAllocation name =
     \<lparr>nodeName = name, allocatedPods = Map.empty, allocatedCPUs = Map.empty,
      allocatedResources = Map.empty\<rparr>"

text \<open>The first loop of \<open>addPodAllocation\<close>, over the CPUs of the request.\<close>

fun addCPURefs :: "CPUTopology \<Rightarrow> CPUExclusivePolicy \<Rightarrow> int list \<Rightarrow> CPUDetails \<Rightarrow> CPUDetails" where
  "addCPURefs cpuTopology policy [] allocated = allocated"
| "addCPURefs cpuTopology policy (cpuID # rest) allocated =
     (let cpuInfo = (case allocated cpuID of
                       Some info \<Rightarrow> info
                     | None \<Rightarrow> lookupCPUInfo (CPUDetails cpuTopology) cpuID);
          cpuInfo = cpuInfo\<lparr>ExclusivePolicy := policy\<rparr>;
          cpuInfo = cpuInfo\<lparr>RefCount := RefCount cpuInfo + 1\<rparr>
      in addCPURefs cpuTopology policy rest (allocated(cpuID \<mapsto> cpuInfo)))"

text \<open>
  The second loop of \<open>addPodAllocation\<close>.  The loop variable \<open>nodeID\<close> of the source is
  the index into the slice; a record created here takes it as its \<open>Node\<close>, while the
  map is keyed by the \<open>Node\<close> of the request's entry.
\<close>

fun addNUMAResources ::
  "int \<Rightarrow> NUMANodeResource list \<Rightarrow> (int \<rightharpoonup> NUMANodeResource) \<Rightarrow> (int \<rightharpoonup> NUMANodeResource)" where
  "addNUMAResources nodeID [] allocated = allocated"
| "addNUMAResources nodeID (numaNodeRes # rest) allocated =
     (let res = (case allocated (Node numaNodeRes) of
                   Some r \<Rightarrow> r
                 | None \<Rightarrow> \<lparr>Node = nodeID, Resources = Map.empty\<rparr>);
          res = res\<lparr>Resources := Add (Resources res) (Resources numaNodeRes)\<rparr>
      in addNUMAResources (nodeID + 1) rest (allocated(Node numaNodeRes \<mapsto> res)))"

definition addPodAllocation :: "PodAllocation \<Rightarrow> CPUTopology \<Rightarrow> NodeAllocation \<Rightarrow> NodeAllocation" where
  "addPodAllocation request cpuTopology n =
     (if allocatedPods n (UID request) \<noteq> None then n
      else n\<lparr>allocatedPods := (allocatedPods n)(UID request \<mapsto> request),
             allocatedCPUs := addCPURefs cpuTopology (CPUExclusivePolicy request)
                                (ToSliceNoSort (CPUSet request)) (allocatedCPUs n),
             allocatedResources := addNUMAResources 0 (NUMANodeResources request)
                                     (allocatedResources n)\<rparr>)"

text \<open>The first loop of \<open>release\<close>.\<close>

fun releaseCPURefs :: "int list \<Rightarrow> CPUDetails \<Rightarrow> CPUDetails" where
  "releaseCPURefs [] allocated = allocated"
| "releaseCPURefs (cpuID # rest) allocated =
     (case allocated cpuID of
        None \<Rightarrow> releaseCPURefs rest allocated
      | Some cpuInfo \<Rightarrow>
          (let cpuInfo = cpuInfo\<lparr>RefCount := RefCount cpuInfo - 1\<rparr>
           in if RefCount cpuInfo = 0 then releaseCPURefs rest (allocated(cpuID := None))
              else releaseCPURefs rest (allocated(cpuID \<mapsto> cpuInfo))))"

text \<open>The second loop of \<open>release\<close>.\<close>

fun releaseNUMAResources ::
  "NUMANodeResource list \<Rightarrow> (int \<rightharpoonup> NUMANodeResource) \<Rightarrow> (int \<rightharpoonup> NUMANodeResource)" where
  "releaseNUMAResources [] allocated = allocated"
| "releaseNUMAResources (numaNodeRes # rest) allocated =
     (case allocated (Node numaNodeRes) of
        None \<Rightarrow> releaseNUMAResources rest allocated
      | Some res \<Rightarrow>
          releaseNUMAResources rest
            (allocated(Node numaNodeRes \<mapsto>
               res\<lparr>Resources :=
                     SubtractWithNonNegativeResult (Resources res) (Resources numaNodeRes)\<rparr>)))"

definition release :: "UID \<Rightarrow> NodeAllocation \<Rightarrow> NodeAllocation" where
  "release podUID n =
     (case allocatedPods n podUID of
        None \<Rightarrow> n
      | Some request \<Rightarrow>
          n\<lparr>allocatedPods := (allocatedPods n)(podUID := None),
            allocatedCPUs := releaseCPURefs (ToSliceNoSort (CPUSet request)) (allocatedCPUs n),
            allocatedResources := releaseNUMAResources (NUMANodeResources request)
                                    (allocatedResources n)\<rparr>)"

definition update :: "PodAllocation \<Rightarrow> CPUTopology \<Rightarrow> NodeAllocation \<Rightarrow> NodeAllocation" where
  "update allocation cpuTopology n =
     addPodAllocation allocation cpuTopology (release (UID allocation) n)"

definition getCPUs :: "NodeAllocation \<Rightarrow> UID \<Rightarrow> CPUSet \<times> bool" where
  "getCPUs n podUID =
     (case allocatedPods n podUID of
        Some request \<Rightarrow> (CPUSet request, True)
      | None \<Rightarrow> ({}, False))"

text \<open>
  Modelled from the spec: the methods of \<open>CPUDetails\<close> (cpu_topology.go is not part of
  the sources at hand): the CPU ids of a ledger, the ledger cut down to a set of CPUs,
  the core ids of its entries, and the CPUs of given cores and of given NUMA nodes.
\<close>

definition CPUs :: "CPUDetails \<Rightarrow> CPUSet" where
  "CPUs d = dom d"

definition KeepOnly :: "CPUDetails \<Rightarrow> CPUSet \<Rightarrow> CPUDetails" where
  "KeepOnly d cpus = (\<lambda>cpu. if cpu \<in> cpus then d cpu else None)"

definition Cores :: "CPUDetails \<Rightarrow> CPUSet" where
  "Cores d = CoreID ` ran d"

definition CPUsInCores :: "CPUDetails \<Rightarrow> CPUSet \<Rightarrow> CPUSet" where
  "CPUsInCores d ids = {cpu. \<exists>info. d cpu = Some info \<and> CoreID info \<in> ids}"

definition CPUsInNUMANodes :: "CPUDetails \<Rightarrow> CPUSet \<Rightarrow> CPUSet" where
  "CPUsInNUMANodes d ids = {cpu. \<exists>info. d cpu = Some info \<and> NodeID info \<in> ids}"

text \<open>\<open>CPUSet.Size\<close>, a Go \<open>int\<close>.\<close>

definition Size :: "CPUSet \<Rightarrow> int" where
  "Size s = int (card s)"

text \<open>The loop of \<open>getAvailableCPUs\<close> over the preferred CPUs, on the cloned ledger.\<close>

fun dropPreferredRefs :: "int list \<Rightarrow> CPUDetails \<Rightarrow> CPUDetails" where
  "dropPreferredRefs [] allocateInfo = allocateInfo"
| "dropPreferredRefs (cpuID # rest) allocateInfo =
     (case allocateInfo cpuID of
        Some cpuInfo \<Rightarrow>
          (let cpuInfo = cpuInfo\<lparr>RefCount := RefCount cpuInfo - 1\<rparr>
           in if RefCount cpuInfo = 0 then dropPreferredRefs rest (allocateInfo(cpuID := None))
              else dropPreferredRefs rest (allocateInfo(cpuID \<mapsto> cpuInfo)))
      | None \<Rightarrow> dropPreferredRefs rest allocateInfo)"

definition getAvailableCPUs ::
  "NodeAllocation \<Rightarrow> CPUTopology \<Rightarrow> int \<Rightarrow> CPUSet \<Rightarrow> CPUSet \<Rightarrow> CPUSet \<times> CPUDetails" where
  "getAvailableCPUs n cpuTopology maxRefCount reservedCPUs preferredCPUs =
     (let allocateInfo = allocatedCPUs n;
          allocateInfo = (if preferredCPUs \<noteq> {}
                          then dropPreferredRefs (ToSliceNoSort preferredCPUs) allocateInfo
                          else allocateInfo);
          allocated = {cpuID \<in> CPUs allocateInfo.
                         RefCount (lookupCPUInfo allocateInfo cpuID) \<ge> maxRefCount};
          availableCPUs = (CPUs (CPUDetails cpuTopology) - allocated) - reservedCPUs
      in (availableCPUs, allocateInfo))"

text \<open>
  The loop of \<open>NodeAllocation.getAvailableNUMANodeResources\<close>.  Reading the resources
  of a nil \<open>allocated\<close> gives the nil list, which has no key.
\<close>

fun availableNUMALoop ::
  "NUMANodeResource list \<Rightarrow> (int \<rightharpoonup> NUMANodeResource) \<Rightarrow>
   (int \<rightharpoonup> ResourceList) \<times> (int \<rightharpoonup> ResourceList) \<Rightarrow>
   (int \<rightharpoonup> ResourceList) \<times> (int \<rightharpoonup> ResourceList)" where
  "availableNUMALoop [] allocatedRs (totalAvailable, totalAllocated) =
     (totalAvailable, totalAllocated)"
| "availableNUMALoop (numaNodeRes # rest) allocatedRs (totalAvailable, totalAllocated) =
     (let allocated = allocatedRs (Node numaNodeRes);
          allocatedRes = (case allocated of Some a \<Rightarrow> Resources a | None \<Rightarrow> Map.empty);
          totalAllocated = (case allocated of
                              Some a \<Rightarrow> totalAllocated(Node numaNodeRes \<mapsto> allocatedRes)
                            | None \<Rightarrow> totalAllocated);
          totalAvailable = totalAvailable(Node numaNodeRes \<mapsto>
                             SubtractWithNonNegativeResult (Resources numaNodeRes) allocatedRes)
      in availableNUMALoop rest allocatedRs (totalAvailable, totalAllocated))"

definition getAvailableNUMANodeResources ::
  "NodeAllocation \<Rightarrow> TopologyOptions \<Rightarrow> (int \<rightharpoonup> ResourceList) \<times> (int \<rightharpoonup> ResourceList)" where
  "getAvailableNUMANodeResources n topologyOptions =
     availableNUMALoop (TopologyOptions.NUMANodeResources topologyOptions)
       (allocatedResources n) (Map.empty, Map.empty)"

text \<open>Reading a map of resource lists at a missing key gives the nil list.\<close>

definition resourcesAt :: "(int \<rightharpoonup> ResourceList) \<Rightarrow> int \<Rightarrow> ResourceList" where
  "resourcesAt totalAvailable nodeID =
     (case totalAvailable nodeID of Some l \<Rightarrow> l | None \<Rightarrow> Map.empty)"

text \<open>
  Modelled from the spec: the method \<open>NodeAllocation.getAvailableNUMANodeResources\<close> of
  two parameters, the topology options and the reusable resources, which
  \<open>resourceManager.getAvailableNUMANodeResources\<close> calls; node_allocation.go has the
  method above, of the topology options alone.  By the spec, for every NUMA node of the
  topology options the available resources are the capacity minus the allocated
  resources plus the reusable resources of the node, not below zero, and the second
  result are the allocated resources.  The loop is the one above, with the arithmetic of
  \<open>quotav1\<close>: the reusable resources of the node are added to its capacity, and the
  allocated resources are subtracted from the sum, which stops at zero.
\<close>

fun availableReusableLoop ::
  "NUMANodeResource list \<Rightarrow> (int \<rightharpoonup> NUMANodeResource) \<Rightarrow> (int \<rightharpoonup> ResourceList) \<Rightarrow>
   (int \<rightharpoonup> ResourceList) \<times> (int \<rightharpoonup> ResourceList) \<Rightarrow>
   (int \<rightharpoonup> ResourceList) \<times> (int \<rightharpoonup> ResourceList)" where
  "availableReusableLoop [] allocatedRs reusable (totalAvailable, totalAllocated) =
     (totalAvailable, totalAllocated)"
| "availableReusableLoop (numaNodeRes # rest) allocatedRs reusable
       (totalAvailable, totalAllocated) =
     (let allocated = allocatedRs (Node numaNodeRes);
          allocatedRes = (case allocated of Some a \<Rightarrow> Resources a | None \<Rightarrow> Map.empty);
          totalAllocated = (case allocated of
                              Some a \<Rightarrow> totalAllocated(Node numaNodeRes \<mapsto> allocatedRes)
                            | None \<Rightarrow> totalAllocated);
          totalAvailable = totalAvailable(Node numaNodeRes \<mapsto>
                             SubtractWithNonNegativeResult
                               (Add (Resources numaNodeRes)
                                  (resourcesAt reusable (Node numaNodeRes)))
                               allocatedRes)
      in availableReusableLoop rest allocatedRs reusable (totalAvailable, totalAllocated))"

definition getAvailableNUMANodeResources_reusable ::
  "NodeAllocation \<Rightarrow> TopologyOptions \<Rightarrow> (int \<rightharpoonup> ResourceList) \<Rightarrow>
   (int \<rightharpoonup> ResourceList) \<times> (int \<rightharpoonup> ResourceList)" where
  "getAvailableNUMANodeResources_reusable n topologyOptions reusable =
     availableReusableLoop (TopologyOptions.NUMANodeResources topologyOptions)
       (allocatedResources n) reusable (Map.empty, Map.empty)"

section \<open>Bit masks and topology hints\<close>

text \<open>
  Modelled from the spec: package bitmask (not part of the sources at hand).  A mask is
  a fixed-width set of NUMA cell numbers, 64 bits wide.  \<open>GetBits\<close> lists the cells of
  a mask in ascending order and \<open>Count\<close> is their number.  \<open>NewBitMask\<close> sets the given
  bits; the statements below are about bits within the width.  \<open>IterateBitMasks\<close>
  hands the mask of every non-empty selection of the given cells to its callback, in
  ascending cardinality; \<open>subseqs\<close> lists the selections of one cardinality in the
  order of the cell list.
\<close>

type_synonym BitMask = "64 word"

definition GetBits :: "BitMask \<Rightarrow> int list" where
  "GetBits bmask = map int (filter (bit bmask) [0..<64])"

definition Count :: "BitMask \<Rightarrow> int" where
  "Count bmask = int (length (GetBits bmask))"

definition NewBitMask :: "int list \<Rightarrow> BitMask" where
  "NewBitMask bits = foldl (\<lambda>bmask i. bmask OR push_bit (nat i) 1) 0 bits"

definition IterateBitMasks :: "int list \<Rightarrow> BitMask list" where
  "IterateBitMasks bits =
     concat (map (\<lambda>size. map NewBitMask (filter (\<lambda>accum. length accum = size) (subseqs bits)))
               [1..<length bits + 1])"

text \<open>\<open>NUMANodeAffinity\<close> is an interface value: \<open>None\<close> is nil.\<close>

record NUMATopologyHint =
  NUMANodeAffinity :: "BitMask option"
  Preferred :: bool

text \<open>
  The first loop of the callback of \<open>generateResourceHints\<close>: the lists of the cells of
  the mask, added up with \<open>quotav1.Add\<close> in the order of its bits.
\<close>

definition maskAvailable :: "(int \<rightharpoonup> ResourceList) \<Rightarrow> BitMask \<Rightarrow> ResourceList" where
  "maskAvailable totalAvailable bmask =
     foldl (\<lambda>available nodeID. Add available (resourcesAt totalAvailable nodeID))
       Map.empty (GetBits bmask)"

text \<open>
  The callback of \<open>generateResourceHints\<close>, on the two variables it captures.  Its
  loop ranges over the keys of \<open>podRequests\<close> and each round touches the hints of its
  own key only, so the loop is the map of the rounds.
\<close>

definition hintCallback ::
  "ResourceList \<Rightarrow> (int \<rightharpoonup> ResourceList) \<Rightarrow> BitMask \<Rightarrow>
   int \<times> (string \<rightharpoonup> NUMATopologyHint list) \<Rightarrow> int \<times> (string \<rightharpoonup> NUMATopologyHint list)" where
  "hintCallback podRequests totalAvailable bmask st =
     (let minAffinitySize = fst st; hints = snd st;
          available = maskAvailable totalAvailable bmask
      in if \<not> LessThanOrEqual podRequests available then (minAffinitySize, hints)
         else
           (let minAffinitySize =
                  (if Count bmask < minAffinitySize then Count bmask else minAffinitySize);
                hints = (\<lambda>resourceName.
                   if podRequests resourceName = None \<or> available resourceName = None
                   then hints resourceName
                   else Some ((case hints resourceName of None \<Rightarrow> [] | Some hs \<Rightarrow> hs) @
                              [\<lparr>NUMANodeAffinity = Some bmask, Preferred = False\<rparr>]))
            in (minAffinitySize, hints)))"

text \<open>
  The last loop of \<open>generateResourceHints\<close>.  Every hint was built by the callback;
  reading the bits of a nil affinity would be a nil dereference.
\<close>

definition markPreferred :: "int \<Rightarrow> NUMATopologyHint \<Rightarrow> NUMATopologyHint" where
  "markPreferred minAffinitySize hint =
     (case NUMANodeAffinity hint of
        Some bmask \<Rightarrow> hint\<lparr>Preferred := (int (length (GetBits bmask)) = minAffinitySize)\<rparr>
      | None \<Rightarrow> hint)"

definition generateResourceHints ::
  "int list \<Rightarrow> ResourceList \<Rightarrow> (int \<rightharpoonup> ResourceList) \<Rightarrow> (string \<rightharpoonup> NUMATopologyHint list)" where
  "generateResourceHints numaNodes podRequests totalAvailable =
     (let st = foldl (\<lambda>st bmask. hintCallback podRequests totalAvailable bmask st)
                 (int (length numaNodes), Map.empty) (IterateBitMasks numaNodes);
          minAffinitySize = fst st; hints = snd st
      in (\<lambda>resourceName.
            if podRequests resourceName = None then hints resourceName
            else map_option (map (markPreferred minAffinitySize)) (hints resourceName)))"

section \<open>The resource manager\<close>

text \<open>
  The errors of the package, as values.  \<open>Unschedulable rs\<close> is the status built from
  the reasons \<open>Insufficient NUMA r\<close>, one for each \<open>r\<close> of \<open>rs\<close>; the source lists
  them in the order of a map iteration.  \<open>NilDereference\<close> and \<open>DivideByZero\<close> are
  the run-time panics of Go.  \<open>TakeCPUsFailed\<close> is whatever error the CPU selector,
  which is not part of the sources at hand, returns.
\<close>

datatype error =
    InsufficientNUMANode
  | Unschedulable "string set"
  | NotEnoughCPUs
  | NotFoundCPUTopology
  | InvalidCPUTopology
  | BindPolicyUnsatisfied CPUBindPolicy
  | TakeCPUsFailed string
  | NilDereference
  | DivideByZero

text \<open>
  The manager.  Its \<open>TopologyOptionsManager\<close> is read through \<open>GetTopologyOptions\<close>
  only, which answers for every node name; it is the function from node names to
  options.  \<open>nodeAllocations\<close> holds pointers: an update of a node's allocation is an
  update of the map.
\<close>

record resourceManager =
  numaAllocateStrategy :: NUMAAllocateStrategy
  topologyOptionsManager :: "string \<Rightarrow> TopologyOptions"
  nodeAllocations :: "string \<rightharpoonup> NodeAllocation"

definition getOrCreateNodeAllocation ::
  "resourceManager \<Rightarrow> string \<Rightarrow> NodeAllocation \<times> resourceManager" where
  "getOrCreateNodeAllocation c name =
     (case nodeAllocations c name of
        Some v \<Rightarrow> (v, c)
      | None \<Rightarrow>
          (let v = NewNodeAllocation name
           in (v, c\<lparr>nodeAllocations := (nodeAllocations c)(name \<mapsto> v)\<rparr>)))"

text \<open>
  \<open>resourceManager.getAvailableNUMANodeResources\<close>.  It hands the topology options and
  the reusable resources to the method of \<open>NodeAllocation\<close> of two parameters.
\<close>

definition resourceManager_getAvailableNUMANodeResources ::
  "resourceManager \<Rightarrow> string \<Rightarrow> TopologyOptions \<Rightarrow> (int \<rightharpoonup> ResourceList) \<Rightarrow>
   ((int \<rightharpoonup> ResourceList) \<times> (int \<rightharpoonup> ResourceList)) \<times> resourceManager" where
  "resourceManager_getAvailableNUMANodeResources c name topologyOptions reusableResources =
     (let (nodeAllocation, c) = getOrCreateNodeAllocation c name
      in (getAvailableNUMANodeResources_reusable nodeAllocation topologyOptions
            reusableResources, c))"

definition allocateRes :: "Quantity \<Rightarrow> Quantity \<Rightarrow> Quantity \<times> Quantity \<times> Quantity" where
  "allocateRes available request =
     (if available > request then (available - request, request - request, request)
      else if available < request then (available - available, request - available, available)
      else (request - request, request - request, available))"

text \<open>
  One round of the outer loop of \<open>allocateResourcesByHint\<close>, on the resources of one
  cell.  The inner loop ranges over the keys of \<open>requests\<close> and each round touches its
  own key only, so it is the map of the rounds.  It gives the cell's availability, the
  requests and the names met, all three updated, and the resources taken from the cell.
\<close>

definition allocateOnCell ::
  "ResourceList \<Rightarrow> ResourceList \<Rightarrow> string set \<Rightarrow>
   ResourceList \<times> ResourceList \<times> string set \<times> ResourceList" where
  "allocateOnCell allocatable requests intersectionResources =
     ((\<lambda>resourceName.
         case (requests resourceName, allocatable resourceName) of
           (Some quantity, Some allocatableQuantity) \<Rightarrow>
             Some (fst (allocateRes allocatableQuantity quantity))
         | _ \<Rightarrow> allocatable resourceName),
      (\<lambda>resourceName.
         case (requests resourceName, allocatable resourceName) of
           (Some quantity, Some allocatableQuantity) \<Rightarrow>
             Some (fst (snd (allocateRes allocatableQuantity quantity)))
         | _ \<Rightarrow> requests resourceName),
      intersectionResources \<union>
        {resourceName. requests resourceName \<noteq> None \<and> allocatable resourceName \<noteq> None},
      (\<lambda>resourceName.
         case (requests resourceName, allocatable resourceName) of
           (Some quantity, Some allocatableQuantity) \<Rightarrow>
             (let allocated = snd (snd (allocateRes allocatableQuantity quantity))
              in if allocated \<noteq> 0 then Some allocated else None)
         | _ \<Rightarrow> None))"

text \<open>
  The outer loop, over the bits of the hint.  A cell missing from \<open>totalAvailable\<close>
  has the nil list, which is never written to.
\<close>

fun allocateByBits ::
  "int list \<Rightarrow> (int \<rightharpoonup> ResourceList) \<Rightarrow> ResourceList \<Rightarrow> string set \<Rightarrow> NUMANodeResource list \<Rightarrow>
   ResourceList \<times> string set \<times> NUMANodeResource list" where
  "allocateByBits [] totalAvailable requests intersectionResources result =
     (requests, intersectionResources, result)"
| "allocateByBits (numaNodeID # rest) totalAvailable requests intersectionResources result =
     (let (allocatable, requests, intersectionResources, taken) =
            allocateOnCell (resourcesAt totalAvailable numaNodeID) requests intersectionResources;
          totalAvailable = (if totalAvailable numaNodeID = None then totalAvailable
                            else totalAvailable(numaNodeID \<mapsto> allocatable));
          r = \<lparr>Node = numaNodeID, Resources = taken\<rparr>;
          result = (if \<not> IsZero (Resources r) then result @ [r] else result)
      in if IsZero requests then (requests, intersectionResources, result)
         else allocateByBits rest totalAvailable requests intersectionResources result)"

record ResourceOptions =
  numCPUsNeeded :: int
  requestCPUBind :: bool
  requests :: ResourceList
  originalRequests :: ResourceList
  requiredCPUBindPolicy :: bool
  cpuBindPolicy :: CPUBindPolicy
  cpuExclusivePolicy :: CPUExclusivePolicy
  preferredCPUs :: CPUSet
  reusableResources :: "int \<rightharpoonup> ResourceList"
  hint :: NUMATopologyHint
  topologyOptions :: TopologyOptions

definition GetTopologyHints ::
  "resourceManager \<Rightarrow> corev1_Node \<Rightarrow> corev1_Pod \<Rightarrow> ResourceOptions \<Rightarrow>
   (error + (string \<rightharpoonup> NUMATopologyHint list)) \<times> resourceManager" where
  "GetTopologyHints c node pod options =
     (let topologyOptions = topologyOptions options
      in if length (TopologyOptions.NUMANodeResources topologyOptions) = 0
         then (Inl InsufficientNUMANode, c)
         else
           (let ((totalAvailable, unused), c) =
                  resourceManager_getAvailableNUMANodeResources c (corev1_Node.Name node)
                    topologyOptions (reusableResources options);
                nodes = map Node (TopologyOptions.NUMANodeResources topologyOptions)
            in (Inr (generateResourceHints nodes (requests options) totalAvailable), c)))"

definition allocateResourcesByHint ::
  "resourceManager \<Rightarrow> corev1_Node \<Rightarrow> corev1_Pod \<Rightarrow> ResourceOptions \<Rightarrow>
   (error + NUMANodeResource list) \<times> resourceManager" where
  "allocateResourcesByHint c node pod options =
     (if length (TopologyOptions.NUMANodeResources (topologyOptions options)) = 0
      then (Inl InsufficientNUMANode, c)
      else
        (let ((totalAvailable, unused), c) =
               resourceManager_getAvailableNUMANodeResources c (corev1_Node.Name node)
                 (topologyOptions options) (reusableResources options);
             requests = (if requestCPUBind options then originalRequests options
                         else requests options)
         in case NUMANodeAffinity (hint options) of
              None \<Rightarrow> (Inl NilDereference, c)
            | Some affinity \<Rightarrow>
                (let (requests, intersectionResources, result) =
                       allocateByBits (GetBits affinity) totalAvailable requests {} [];
                     reasons = {resourceName. \<exists>quantity.
                                  requests resourceName = Some quantity \<and>
                                  resourceName \<in> intersectionResources \<and> quantity \<noteq> 0}
                 in if reasons \<noteq> {} then (Inl (Unschedulable reasons), c)
                    else (Inr result, c))))"

text \<open>Go's integer division and remainder truncate towards zero.\<close>

definition quot :: "int \<Rightarrow> int \<Rightarrow> int" where
  "quot a b = sgn a * sgn b * (\<bar>a\<bar> div \<bar>b\<bar>)"

definition rem :: "int \<Rightarrow> int \<Rightarrow> int" where
  "rem a b = a - b * quot a b"

text \<open>
  The two bind policies the code names; their values are those of the constants of
  \<open>schedulingconfig\<close>, which the spec calls by the same names.  \<open>ResourceCPU\<close> is the
  resource name of Kubernetes.
\<close>

definition CPUBindPolicyFullPCPUs :: CPUBindPolicy where
  "CPUBindPolicyFullPCPUs = ''FullPCPUs''"

definition CPUBindPolicySpreadByPCPUs :: CPUBindPolicy where
  "CPUBindPolicySpreadByPCPUs = ''SpreadByPCPUs''"

definition ResourceCPU :: string where
  "ResourceCPU = ''cpu''"

text \<open>
  \<open>GetNUMAAllocateStrategy\<close>.  The label key \<open>LabelNodeNUMAAllocateStrategy\<close> is a
  constant of a package that is not part of the sources at hand: it is a parameter.
  Reading the labels at a missing key gives the empty string.
\<close>

definition GetNUMAAllocateStrategy ::
  "string \<Rightarrow> corev1_Node \<Rightarrow> NUMAAllocateStrategy \<Rightarrow> NUMAAllocateStrategy" where
  "GetNUMAAllocateStrategy labelKey node defaultNUMAtAllocateStrategy =
     (let val = (case Labels node labelKey of Some v \<Rightarrow> v | None \<Rightarrow> [])
      in if val \<noteq> [] then val else defaultNUMAtAllocateStrategy)"

text \<open>
  The first statement of \<open>filterAvailableCPUsByRequiredCPUBindPolicy\<close> calls
  \<open>KeepOnly\<close> and drops what it returns.  The remainder by zero panics.
\<close>

definition filterAvailableCPUsByRequiredCPUBindPolicy ::
  "CPUBindPolicy \<Rightarrow> CPUSet \<Rightarrow> CPUDetails \<Rightarrow> int \<Rightarrow> error + CPUSet" where
  "filterAvailableCPUsByRequiredCPUBindPolicy policy availableCPUs cpuDetails cpusPerCore =
     (if policy = CPUBindPolicyFullPCPUs
      then (let cpus = CPUsInCores cpuDetails (Cores cpuDetails)
            in if cpusPerCore = 0 then Inl DivideByZero
               else if rem (Size cpus) cpusPerCore \<noteq> 0 then Inr availableCPUs
               else Inr cpus)
      else Inr availableCPUs)"

definition determineFullPCPUs :: "CPUSet \<Rightarrow> CPUDetails \<Rightarrow> int \<Rightarrow> bool" where
  "determineFullPCPUs cpus details cpusPerCore =
     (let details = KeepOnly details cpus
      in Size (Cores details) * cpusPerCore = Size cpus)"

definition determineSpreadByPCPUs :: "CPUSet \<Rightarrow> CPUDetails \<Rightarrow> bool" where
  "determineSpreadByPCPUs cpus details =
     (let details = KeepOnly details cpus
      in Size (Cores details) = Size cpus)"

text \<open>
  \<open>satisfiedRequiredCPUBindPolicy\<close>; the result \<open>None\<close> is the nil error.  The
  topology is a pointer, read under the two policies only.
\<close>

definition satisfiedRequiredCPUBindPolicy ::
  "CPUBindPolicy \<Rightarrow> CPUSet \<Rightarrow> CPUTopology option \<Rightarrow> error option" where
  "satisfiedRequiredCPUBindPolicy policy cpus topology =
     (if policy = CPUBindPolicyFullPCPUs then
        (case topology of
           None \<Rightarrow> Some NilDereference
         | Some t \<Rightarrow>
             if \<not> determineFullPCPUs cpus (CPUDetails t) (CPUsPerCore t)
             then Some (BindPolicyUnsatisfied policy) else None)
      else if policy = CPUBindPolicySpreadByPCPUs then
        (case topology of
           None \<Rightarrow> Some NilDereference
         | Some t \<Rightarrow>
             if \<not> determineSpreadByPCPUs cpus (CPUDetails t)
             then Some (BindPolicyUnsatisfied policy) else None)
      else None)"

definition GetAvailableCPUs ::
  "resourceManager \<Rightarrow> string \<Rightarrow> CPUSet \<Rightarrow> (error + CPUSet \<times> CPUDetails) \<times> resourceManager" where
  "GetAvailableCPUs c name preferred =
     (let topologyOpts = topologyOptionsManager c name
      in case CPUTopology topologyOpts of
           None \<Rightarrow> (Inl NotFoundCPUTopology, c)
         | Some t \<Rightarrow>
             if \<not> IsValid t then (Inl InvalidCPUTopology, c)
             else
               (let (allocation, c) = getOrCreateNodeAllocation c name
                in (Inr (getAvailableCPUs allocation t (MaxRefCount topologyOpts)
                           (ReservedCPUs topologyOpts) preferred), c)))"

text \<open>
  The CPU selector \<open>takePreferredCPUs\<close> is not part of the sources at hand: it is a
  parameter of \<open>allocateCPUSet\<close> and of \<open>Allocate\<close>, of this type.  Its arguments
  are values; the node allocations are not among them.
\<close>

type_synonym takeCPUs =
  "CPUTopology option \<Rightarrow> int \<Rightarrow> CPUSet \<Rightarrow> CPUSet \<Rightarrow> CPUDetails \<Rightarrow> int \<Rightarrow>
   CPUBindPolicy \<Rightarrow> CPUExclusivePolicy \<Rightarrow> NUMAAllocateStrategy \<Rightarrow> error + CPUSet"

text \<open>The loop of \<open>allocateCPUSet\<close> over the NUMA nodes already allocated.\<close>

fun takeOnNUMANodes ::
  "takeCPUs \<Rightarrow> ResourceOptions \<Rightarrow> CPUTopology \<Rightarrow> CPUSet \<Rightarrow> CPUDetails \<Rightarrow> NUMAAllocateStrategy \<Rightarrow>
   NUMANodeResource list \<Rightarrow> CPUSet \<Rightarrow> error + CPUSet" where
  "takeOnNUMANodes takePreferredCPUs options t availableCPUs allocatedCPUs' strategy [] result =
     Inr result"
| "takeOnNUMANodes takePreferredCPUs options t availableCPUs allocatedCPUs' strategy
     (numaNode # rest) result =
     (let cpusInNUMANode = CPUsInNUMANodes (CPUDetails t) {Node numaNode};
          availableCPUsInNUMANode = availableCPUs \<inter> cpusInNUMANode;
          numCPUs = Size availableCPUsInNUMANode;
          quantity = (case Resources numaNode ResourceCPU of Some q \<Rightarrow> q | None \<Rightarrow> 0);
          nodeNumCPUsNeeded = quot quantity 1000;
          numCPUs = (if nodeNumCPUsNeeded < numCPUs then nodeNumCPUsNeeded else numCPUs)
      in case takePreferredCPUs (Some t) (MaxRefCount (topologyOptions options))
                availableCPUsInNUMANode (preferredCPUs options) allocatedCPUs' numCPUs
                (cpuBindPolicy options) (cpuExclusivePolicy options) strategy of
           Inl err \<Rightarrow> Inl err
         | Inr cpus \<Rightarrow>
             takeOnNUMANodes takePreferredCPUs options t availableCPUs allocatedCPUs' strategy
               rest (result \<union> cpus))"

text \<open>
  The body of \<open>allocateCPUSet\<close> after its call of \<open>GetAvailableCPUs\<close>; the manager
  enters it through its default strategy only.
\<close>

definition selectCPUSet ::
  "takeCPUs \<Rightarrow> string \<Rightarrow> NUMAAllocateStrategy \<Rightarrow> corev1_Node \<Rightarrow> NUMANodeResource list \<Rightarrow>
   ResourceOptions \<Rightarrow> CPUSet \<Rightarrow> CPUDetails \<Rightarrow> error + CPUSet" where
  "selectCPUSet takePreferredCPUs labelKey defaultStrategy node allocatedNUMANodes options
     availableCPUs allocatedCPUs' =
     (let topologyOpts = topologyOptions options
      in case (if requiredCPUBindPolicy options
               then (case CPUTopology topologyOpts of
                       None \<Rightarrow> Inl NilDereference
                     | Some t \<Rightarrow>
                         filterAvailableCPUsByRequiredCPUBindPolicy (cpuBindPolicy options)
                           availableCPUs (KeepOnly (CPUDetails t) availableCPUs) (CPUsPerCore t))
               else Inr availableCPUs) of
           Inl err \<Rightarrow> Inl err
         | Inr availableCPUs \<Rightarrow>
             if Size availableCPUs < numCPUsNeeded options then Inl NotEnoughCPUs
             else
               (let strategy = GetNUMAAllocateStrategy labelKey node defaultStrategy
                in case (if length allocatedNUMANodes > 0
                         then (case CPUTopology topologyOpts of
                                 None \<Rightarrow> Inl NilDereference
                               | Some t \<Rightarrow>
                                   takeOnNUMANodes takePreferredCPUs options t availableCPUs
                                     allocatedCPUs' strategy allocatedNUMANodes {})
                         else Inr {}) of
                     Inl err \<Rightarrow> Inl err
                   | Inr result \<Rightarrow>
                       (let needed = (if length allocatedNUMANodes > 0
                                      then numCPUsNeeded options - Size result
                                      else numCPUsNeeded options)
                        in if length allocatedNUMANodes > 0 \<and> needed \<noteq> 0 then Inl NotEnoughCPUs
                           else
                             case (if needed > 0
                                   then (case takePreferredCPUs (CPUTopology topologyOpts)
                                                (MaxRefCount topologyOpts) (availableCPUs - result)
                                                (preferredCPUs options) allocatedCPUs' needed
                                                (cpuBindPolicy options) (cpuExclusivePolicy options)
                                                strategy of
                                           Inl err \<Rightarrow> Inl err
                                         | Inr remainingCPUs \<Rightarrow> Inr (result \<union> remainingCPUs))
                                   else Inr result) of
                               Inl err \<Rightarrow> Inl err
                             | Inr result \<Rightarrow>
                                 if requiredCPUBindPolicy options
                                 then (case satisfiedRequiredCPUBindPolicy (cpuBindPolicy options)
                                              result (CPUTopology topologyOpts) of
                                         Some err \<Rightarrow> Inl err
                                       | None \<Rightarrow> Inr result)
                                 else Inr result)))"

definition allocateCPUSet ::
  "takeCPUs \<Rightarrow> string \<Rightarrow> resourceManager \<Rightarrow> corev1_Node \<Rightarrow> corev1_Pod \<Rightarrow> NUMANodeResource list \<Rightarrow>
   ResourceOptions \<Rightarrow> (error + CPUSet) \<times> resourceManager" where
  "allocateCPUSet takePreferredCPUs labelKey c node pod allocatedNUMANodes options =
     (case GetAvailableCPUs c (corev1_Node.Name node) (preferredCPUs options) of
        (Inl err, c) \<Rightarrow> (Inl err, c)
      | (Inr (availableCPUs, allocatedCPUs'), c) \<Rightarrow>
          (selectCPUSet takePreferredCPUs labelKey (numaAllocateStrategy c) node
             allocatedNUMANodes options availableCPUs allocatedCPUs', c))"

definition Allocate ::
  "takeCPUs \<Rightarrow> string \<Rightarrow> resourceManager \<Rightarrow> corev1_Node \<Rightarrow> corev1_Pod \<Rightarrow> ResourceOptions \<Rightarrow>
   (error + PodAllocation) \<times> resourceManager" where
  "Allocate takePreferredCPUs labelKey c node pod options =
     (let allocation = \<lparr>PodAllocation.UID = corev1_Pod.UID pod,
                         Namespace = corev1_Pod.Namespace pod,
                         Name = corev1_Pod.Name pod,
                         CPUSet = {},
                         CPUExclusivePolicy = cpuExclusivePolicy options,
                         NUMANodeResources = []\<rparr>
      in case (if NUMANodeAffinity (hint options) \<noteq> None
               then allocateResourcesByHint c node pod options
               else (Inr (NUMANodeResources allocation), c)) of
           (Inl err, c) \<Rightarrow> (Inl err, c)
         | (Inr resources, c) \<Rightarrow>
             (let allocation = allocation\<lparr>NUMANodeResources := resources\<rparr>
              in if requestCPUBind options
                 then (case allocateCPUSet takePreferredCPUs labelKey c node pod
                              (NUMANodeResources allocation) options of
                         (Inl err, c) \<Rightarrow> (Inl err, c)
                       | (Inr cpus, c) \<Rightarrow> (Inr (allocation\<lparr>CPUSet := cpus\<rparr>), c))
                 else (Inr allocation, c)))"

definition Update :: "resourceManager \<Rightarrow> string \<Rightarrow> PodAllocation \<Rightarrow> resourceManager" where
  "Update c name allocation =
     (let topologyOpts = topologyOptionsManager c name
      in case CPUTopology topologyOpts of
           None \<Rightarrow> c
         | Some t \<Rightarrow>
             if \<not> IsValid t then c
             else
               (let (nodeAllocation, c) = getOrCreateNodeAllocation c name
                in c\<lparr>nodeAllocations :=
                       (nodeAllocations c)(name \<mapsto> update allocation t nodeAllocation)\<rparr>))"

definition Release :: "resourceManager \<Rightarrow> string \<Rightarrow> UID \<Rightarrow> resourceManager" where
  "Release c name podUID =
     (let (nodeAllocation, c) = getOrCreateNodeAllocation c name
      in c\<lparr>nodeAllocations := (nodeAllocations c)(name \<mapsto> release podUID nodeAllocation)\<rparr>)"

definition GetAllocatedCPUSet ::
  "resourceManager \<Rightarrow> string \<Rightarrow> UID \<Rightarrow> (CPUSet \<times> bool) \<times> resourceManager" where
  "GetAllocatedCPUSet c name podUID =
     (let (nodeAllocation, c) = getOrCreateNodeAllocation c name
      in (getCPUs nodeAllocation podUID, c))"

definition GetNodeAllocation :: "resourceManager \<Rightarrow> string \<Rightarrow> NodeAllocation \<times> resourceManager" where
  "GetNodeAllocation c name = getOrCreateNodeAllocation c name"

section \<open>Notions used in the statements\<close>

text \<open>The operations that change a node allocation, and their runs.\<close>

datatype operation = OpUpdate PodAllocation CPUTopology | OpRelease UID

fun applyOperation :: "NodeAllocation \<Rightarrow> operation \<Rightarrow> NodeAllocation" where
  "applyOperation n (OpUpdate allocation cpuTopology) = update allocation cpuTopology n"
| "applyOperation n (OpRelease podUID) = release podUID n"

definition runOperations :: "operation list \<Rightarrow> NodeAllocation \<Rightarrow> NodeAllocation" where
  "runOperations ops n = foldl applyOperation n ops"

text \<open>The recorded pods whose CPU set holds a CPU.\<close>

definition podsUsing :: "NodeAllocation \<Rightarrow> int \<Rightarrow> UID set" where
  "podsUsing n cpuID = {u. \<exists>a. allocatedPods n u = Some a \<and> cpuID \<in> CPUSet a}"

text \<open>
  A topology describes the CPUs of a node and counts no reference: the \<open>RefCount\<close> of
  its entries is zero, as it is in the zero value.  A CPU set of a Go program is finite.
\<close>

definition topologyUnreferenced :: "CPUTopology \<Rightarrow> bool" where
  "topologyUnreferenced t = (\<forall>c info. CPUDetails t c = Some info \<longrightarrow> RefCount info = 0)"

fun operationOK :: "operation \<Rightarrow> bool" where
  "operationOK (OpUpdate allocation cpuTopology) =
     (finite (CPUSet allocation) \<and> topologyUnreferenced cpuTopology)"
| "operationOK (OpRelease podUID) = True"

definition refInv :: "NodeAllocation \<Rightarrow> bool" where
  "refInv n = (finite (dom (allocatedPods n)) \<and>
     (\<forall>u a. allocatedPods n u = Some a \<longrightarrow> finite (CPUSet a)) \<and>
     (\<forall>c. case allocatedCPUs n c of
            None \<Rightarrow> podsUsing n c = {}
          | Some info \<Rightarrow> RefCount info = int (card (podsUsing n c)) \<and> podsUsing n c \<noteq> {}))"

text \<open>The quantity of a resource in a list, zero when the list has no such key.\<close>

definition valOf :: "ResourceList \<Rightarrow> string \<Rightarrow> Quantity" where
  "valOf a key = (case a key of Some v \<Rightarrow> v | None \<Rightarrow> 0)"

text \<open>The resources recorded for a NUMA node, none when the node has no record.\<close>

definition resOf :: "(int \<rightharpoonup> NUMANodeResource) \<Rightarrow> int \<Rightarrow> ResourceList" where
  "resOf m node = (case m node of Some r \<Rightarrow> Resources r | None \<Rightarrow> Map.empty)"

definition nonNegative :: "ResourceList \<Rightarrow> bool" where
  "nonNegative a = (\<forall>key v. a key = Some v \<longrightarrow> 0 \<le> v)"

text \<open>
  The invariants the data model of the ledgers states: a recorded CPU has a positive
  reference count, and no recorded quantity is negative.  A request is well formed when
  none of its quantities is negative.
\<close>

definition ledgerOK :: "NodeAllocation \<Rightarrow> bool" where
  "ledgerOK n = ((\<forall>c info. allocatedCPUs n c = Some info \<longrightarrow> 0 < RefCount info) \<and>
     (\<forall>node res. allocatedResources n node = Some res \<longrightarrow> nonNegative (Resources res)))"

definition podOK :: "PodAllocation \<Rightarrow> bool" where
  "podOK a = (\<forall>res\<in>set (NUMANodeResources a). nonNegative (Resources res))"

definition topologyNonNegative :: "CPUTopology \<Rightarrow> bool" where
  "topologyNonNegative t = (\<forall>c info. CPUDetails t c = Some info \<longrightarrow> 0 \<le> RefCount info)"

fun operationNonNegative :: "operation \<Rightarrow> bool" where
  "operationNonNegative (OpUpdate allocation cpuTopology) =
     (podOK allocation \<and> topologyNonNegative cpuTopology)"
| "operationNonNegative (OpRelease podUID) = True"

text \<open>The allocation the manager holds for a node: a fresh one when it holds none.\<close>

definition ledgerOf :: "resourceManager \<Rightarrow> string \<Rightarrow> NodeAllocation" where
  "ledgerOf c name = fst (getOrCreateNodeAllocation c name)"

text \<open>
  The ledger that \<open>getAvailableCPUs\<close> works on, stated pointwise: the reference count
  of a preferred CPU is one less, and an entry whose count reaches zero is gone.
\<close>

definition adjustedCPUs :: "CPUDetails \<Rightarrow> CPUSet \<Rightarrow> CPUDetails" where
  "adjustedCPUs allocated preferred = (\<lambda>c.
     if c \<in> preferred
     then (case allocated c of
             None \<Rightarrow> None
           | Some info \<Rightarrow> if RefCount info - 1 = 0 then None
                          else Some (info\<lparr>RefCount := RefCount info - 1\<rparr>))
     else allocated c)"

text \<open>The physical cores that the CPUs of a set lie on, by the topology.\<close>

definition coresOf :: "CPUTopology \<Rightarrow> CPUSet \<Rightarrow> int set" where
  "coresOf t cpus = {core. \<exists>c info. c \<in> cpus \<and> CPUDetails t c = Some info \<and> CoreID info = core}"

text \<open>A ledger in which the entries of the CPUs of a set carry a given exclusive policy.\<close>

definition withPolicy :: "CPUExclusivePolicy \<Rightarrow> CPUSet \<Rightarrow> CPUDetails \<Rightarrow> CPUDetails" where
  "withPolicy policy cpus d = (\<lambda>c.
     if c \<in> cpus then map_option (\<lambda>info. info\<lparr>ExclusivePolicy := policy\<rparr>) (d c) else d c)"

text \<open>The quantity recorded for a resource on a NUMA node, zero when none is recorded.\<close>

definition quantityAt :: "(int \<rightharpoonup> NUMANodeResource) \<Rightarrow> int \<Rightarrow> string \<Rightarrow> Quantity" where
  "quantityAt m node key = valOf (resOf m node) key"

text \<open>
  What an allocation leaves behind once it is released.  \<open>broughtIn rs node\<close> are the
  resources that the entries of \<open>rs\<close> for a NUMA node name.  \<open>residueAt rs m node\<close>
  are the resources of the node in the ledger \<open>m\<close>, each with its quantity, together
  with every other resource brought in, with quantity zero.
\<close>

definition broughtIn :: "NUMANodeResource list \<Rightarrow> int \<Rightarrow> string set" where
  "broughtIn rs node = {key. \<exists>res\<in>set rs. Node res = node \<and> Resources res key \<noteq> None}"

definition residueAt ::
  "NUMANodeResource list \<Rightarrow> (int \<rightharpoonup> NUMANodeResource) \<Rightarrow> int \<Rightarrow> ResourceList" where
  "residueAt rs m node = (\<lambda>key.
     case resOf m node key of
       Some v \<Rightarrow> Some v
     | None \<Rightarrow> if key \<in> broughtIn rs node then Some 0 else None)"


text \<open>
  Two managers hold the same node allocations when every node has the same allocation
  in both (a node without one has the fresh, empty one), an allocation that the first
  holds is held unchanged by the second, and the other fields agree.
\<close>

definition sameAllocations :: "resourceManager \<Rightarrow> resourceManager \<Rightarrow> bool" where
  "sameAllocations c c' =
     ((\<forall>name. ledgerOf c' name = ledgerOf c name) \<and>
      (\<forall>name v. nodeAllocations c name = Some v \<longrightarrow> nodeAllocations c' name = Some v) \<and>
      topologyOptionsManager c' = topologyOptionsManager c \<and>
      numaAllocateStrategy c' = numaAllocateStrategy c)"

text \<open>
  What the cells of a list offer of a resource: whether one of them has it, and how much
  they have together.  A request is insufficiently served when a cell offers the
  resource and all of them together have less than is requested.
\<close>

definition offered :: "(int \<rightharpoonup> ResourceList) \<Rightarrow> int list \<Rightarrow> string \<Rightarrow> bool" where
  "offered tot cells r = (\<exists>n\<in>set cells. resourcesAt tot n r \<noteq> None)"

definition availableIn :: "(int \<rightharpoonup> ResourceList) \<Rightarrow> int list \<Rightarrow> string \<Rightarrow> Quantity" where
  "availableIn tot cells r = sum_list (map (\<lambda>n. valOf (resourcesAt tot n) r) cells)"

definition insufficient :: "(int \<rightharpoonup> ResourceList) \<Rightarrow> int list \<Rightarrow> ResourceList \<Rightarrow> string set" where
  "insufficient tot cells reqs =
     {r. \<exists>quantity. reqs r = Some quantity \<and> offered tot cells r \<and>
                     availableIn tot cells r < quantity}"

text \<open>The requests that \<open>allocateResourcesByHint\<close> serves.\<close>

definition requested :: "ResourceOptions \<Rightarrow> ResourceList" where
  "requested options =
     (if requestCPUBind options then originalRequests options else requests options)"

text \<open>The hints of a resource; reading the map at a missing key gives no hint.\<close>

definition hintsFor :: "(string \<rightharpoonup> NUMATopologyHint list) \<Rightarrow> string \<Rightarrow> NUMATopologyHint list" where
  "hintsFor hints r = (case hints r of None \<Rightarrow> [] | Some hs \<Rightarrow> hs)"

text \<open>
  The notions of the claim on hints, stated without the loops of the code.  The cells of
  a mask are the numbers of its bits, and its bit count is their number.  The summed
  availability of a mask has a resource when a cell of the mask has it, and then holds
  the sum of what the cells of the mask have of it.  It meets a request when, on every
  resource that both have, the request does not exceed it.  A mask is feasible when it
  is a non-empty set of the given cells whose summed availability meets the request.
\<close>

definition cellsOf :: "BitMask \<Rightarrow> int set" where
  "cellsOf m = int ` {k. bit m k}"

definition bitCount :: "BitMask \<Rightarrow> nat" where
  "bitCount m = card {k. bit m k}"

definition summedAvailability ::
  "(int \<rightharpoonup> ResourceList) \<Rightarrow> BitMask \<Rightarrow> string \<Rightarrow> Quantity option" where
  "summedAvailability totalAvailable m r =
     (if \<exists>n\<in>cellsOf m. resourcesAt totalAvailable n r \<noteq> None
      then Some (\<Sum>n\<in>cellsOf m. valOf (resourcesAt totalAvailable n) r)
      else None)"

definition meetsRequest :: "ResourceList \<Rightarrow> (int \<rightharpoonup> ResourceList) \<Rightarrow> BitMask \<Rightarrow> bool" where
  "meetsRequest podRequests totalAvailable m =
     (\<forall>r q s. podRequests r = Some q \<longrightarrow> summedAvailability totalAvailable m r = Some s \<longrightarrow>
                q \<le> s)"

definition feasible ::
  "int list \<Rightarrow> ResourceList \<Rightarrow> (int \<rightharpoonup> ResourceList) \<Rightarrow> BitMask \<Rightarrow> bool" where
  "feasible numaNodes podRequests totalAvailable m =
     (m \<noteq> 0 \<and> cellsOf m \<subseteq> set numaNodes \<and> meetsRequest podRequests totalAvailable m)"

section \<open>Concrete values\<close>

text \<open>
  A node of two cores with two threads each, on one NUMA cell, and two pods that share
  CPU 1.
\<close>

definition cpuInfoOf :: "int \<Rightarrow> int \<Rightarrow> int \<Rightarrow> CPUInfo" where
  "cpuInfoOf cpu core node =
     \<lparr>CPUID = cpu, CoreID = core, SocketID = 0, NodeID = node, RefCount = 0,
      ExclusivePolicy = []\<rparr>"

definition topology4 :: CPUTopology where
  "topology4 =
     \<lparr>CPUDetails = [0 \<mapsto> cpuInfoOf 0 0 0, 1 \<mapsto> cpuInfoOf 1 0 0,
                    2 \<mapsto> cpuInfoOf 2 1 0, 3 \<mapsto> cpuInfoOf 3 1 0],
      CPUsPerCore = 2, IsValid = True\<rparr>"

definition podA :: PodAllocation where
  "podA = \<lparr>UID = ''a'', Namespace = ''default'', Name = ''pod-a'', CPUSet = {0, 1},
            CPUExclusivePolicy = ''PCPULevel'',
            NUMANodeResources = [\<lparr>Node = 0, Resources = [''cpu'' \<mapsto> 2000]\<rparr>]\<rparr>"

definition podB :: PodAllocation where
  "podB = \<lparr>UID = ''b'', Namespace = ''default'', Name = ''pod-b'', CPUSet = {1, 2},
            CPUExclusivePolicy = ''NUMANodeLevel'',
            NUMANodeResources = [\<lparr>Node = 0, Resources = [''cpu'' \<mapsto> 2000]\<rparr>]\<rparr>"

text \<open>A pod that takes CPU and memory on cell 0 and memory on cell 1.\<close>

definition podC :: PodAllocation where
  "podC = \<lparr>UID = ''c'', Namespace = ''default'', Name = ''pod-c'', CPUSet = {1, 3},
            CPUExclusivePolicy = ''PCPULevel'',
            NUMANodeResources = [\<lparr>Node = 0, Resources = [''cpu'' \<mapsto> 1000, ''memory'' \<mapsto> 64]\<rparr>,
                                 \<lparr>Node = 1, Resources = [''memory'' \<mapsto> 64]\<rparr>]\<rparr>"

text \<open>A manager that knows the topology of one node and holds no allocation yet.\<close>

definition manager0 :: resourceManager where
  "manager0 =
     \<lparr>numaAllocateStrategy = ''MostAllocated'',
      topologyOptionsManager = (\<lambda>name.
         if name = ''node''
         then \<lparr>CPUTopology = Some topology4, ReservedCPUs = {}, MaxRefCount = 2,
               NUMANodeResources = [\<lparr>Node = 0, Resources = [''cpu'' \<mapsto> 4000]\<rparr>]\<rparr>
         else \<lparr>CPUTopology = None, ReservedCPUs = {}, MaxRefCount = 1,
               NUMANodeResources = []\<rparr>),
      nodeAllocations = Map.empty\<rparr>"

definition ledger1 :: NodeAllocation where
  "ledger1 = update podB topology4 (update podA topology4 (NewNodeAllocation ''node''))"

text \<open>A second allocation for the pod of \<open>podA\<close>, and the topology options of the node.\<close>

definition podA2 :: PodAllocation where
  "podA2 = \<lparr>UID = ''a'', Namespace = ''default'', Name = ''pod-a'', CPUSet = {},
             CPUExclusivePolicy = ''PCPULevel'', NUMANodeResources = []\<rparr>"

definition options0 :: TopologyOptions where
  "options0 = topologyOptionsManager manager0 ''node''"

text \<open>
  A node, a pod and a request for one CPU on NUMA cell 0, and a CPU selector that
  selects nothing.
\<close>

definition node0 :: corev1_Node where
  "node0 = \<lparr>corev1_Node.Name = ''node'', Labels = Map.empty\<rparr>"

definition pod0 :: corev1_Pod where
  "pod0 = \<lparr>corev1_Pod.UID = ''b'', corev1_Pod.Namespace = ''default'',
           corev1_Pod.Name = ''pod-b''\<rparr>"

definition request0 :: ResourceOptions where
  "request0 =
     \<lparr>numCPUsNeeded = 0, requestCPUBind = True, requests = [''cpu'' \<mapsto> 1000],
      originalRequests = [''cpu'' \<mapsto> 1000], requiredCPUBindPolicy = False,
      cpuBindPolicy = CPUBindPolicyFullPCPUs, cpuExclusivePolicy = [],
      preferredCPUs = {}, reusableResources = Map.empty,
      hint = \<lparr>NUMANodeAffinity = Some 1, Preferred = True\<rparr>,
      topologyOptions = options0\<rparr>"

definition takeNothing :: takeCPUs where
  "takeNothing t maxRefCount available preferred allocated k bind exclusive strategy = Inr {}"

text \<open>
  Two requests on cell 0 that bring 1000 reusable CPU with them: one for 3500 CPU and
  for a resource that no NUMA cell has, and one for 3000 CPU.
\<close>

definition request3 :: ResourceOptions where
  "request3 =
     \<lparr>numCPUsNeeded = 4, requestCPUBind = False,
      requests = [''cpu'' \<mapsto> 3500, ''koordinator.sh/gpu-memory'' \<mapsto> 10],
      originalRequests = Map.empty, requiredCPUBindPolicy = False,
      cpuBindPolicy = [], cpuExclusivePolicy = [],
      preferredCPUs = {}, reusableResources = [0 \<mapsto> [''cpu'' \<mapsto> 1000]],
      hint = \<lparr>NUMANodeAffinity = Some 1, Preferred = True\<rparr>,
      topologyOptions = options0\<rparr>"

definition request4 :: ResourceOptions where
  "request4 = request3\<lparr>requests := [''cpu'' \<mapsto> 3000]\<rparr>"

text \<open>The availability of two NUMA cells with 52 CPUs each.\<close>

definition available2 :: "int \<rightharpoonup> ResourceList" where
  "available2 = [0 \<mapsto> [''cpu'' \<mapsto> 52000, ''memory'' \<mapsto> 128],
                 1 \<mapsto> [''cpu'' \<mapsto> 52000, ''memory'' \<mapsto> 128]]"

text \<open>A request of four CPUs and of a resource that no NUMA cell has, on cell 0.\<close>

definition request2 :: ResourceOptions where
  "request2 =
     \<lparr>numCPUsNeeded = 4, requestCPUBind = False,
      requests = [''cpu'' \<mapsto> 4000, ''koordinator.sh/gpu-memory'' \<mapsto> 10],
      originalRequests = Map.empty, requiredCPUBindPolicy = False,
      cpuBindPolicy = [], cpuExclusivePolicy = [],
      preferredCPUs = {}, reusableResources = Map.empty,
      hint = \<lparr>NUMANodeAffinity = Some 1, Preferred = False\<rparr>,
      topologyOptions = options0\<rparr>"

section \<open>The loops of the node allocation\<close>

lemma ToSliceNoSort_set: "finite s \<Longrightarrow> set (ToSliceNoSort s) = s"
  by (simp add: ToSliceNoSort_def)

lemma ToSliceNoSort_distinct: "distinct (ToSliceNoSort s)"
  by (simp add: ToSliceNoSort_def)

lemma addCPURefs_apply:
  "distinct xs \<Longrightarrow> addCPURefs T p xs m c =
     (if c \<in> set xs
      then Some ((case m c of Some info \<Rightarrow> info | None \<Rightarrow> lookupCPUInfo (CPUDetails T) c)
                   \<lparr>ExclusivePolicy := p,
                    RefCount := RefCount (case m c of Some info \<Rightarrow> info
                                          | None \<Rightarrow> lookupCPUInfo (CPUDetails T) c) + 1\<rparr>)
      else m c)"
proof (induction xs arbitrary: m)
  case Nil
  then show ?case by simp
next
  case (Cons x xs)
  then show ?case by (auto simp: Let_def split: option.splits)
qed

lemma releaseCPURefs_apply:
  "distinct xs \<Longrightarrow> releaseCPURefs xs m c =
     (if c \<in> set xs
      then (case m c of
              None \<Rightarrow> None
            | Some info \<Rightarrow> if RefCount info - 1 = 0 then None
                           else Some (info\<lparr>RefCount := RefCount info - 1\<rparr>))
      else m c)"
proof (induction xs arbitrary: m)
  case Nil
  then show ?case by simp
next
  case (Cons x xs)
  then show ?case by (auto simp: Let_def split: option.splits)
qed



lemma podsUsing_subset: "podsUsing n c \<subseteq> dom (allocatedPods n)"
  by (auto simp: podsUsing_def)

lemma podsUsing_finite: "finite (dom (allocatedPods n)) \<Longrightarrow> finite (podsUsing n c)"
  using podsUsing_subset finite_subset by blast

lemma refInv_New: "refInv (NewNodeAllocation name)"
  by (simp add: refInv_def NewNodeAllocation_def podsUsing_def)

lemma podsUsing_release:
  "allocatedPods n u = Some a \<Longrightarrow>
   podsUsing (release u n) c = podsUsing n c - {u}"
  by (auto simp: podsUsing_def release_def)

lemma podsUsing_add:
  "allocatedPods n (UID a) = None \<Longrightarrow>
   podsUsing (addPodAllocation a t n) c =
     (if c \<in> CPUSet a then insert (UID a) (podsUsing n c) else podsUsing n c)"
  by (auto simp: podsUsing_def addPodAllocation_def)

lemma refInv_release:
  assumes "refInv n"
  shows "refInv (release u n)"
proof (cases "allocatedPods n u")
  case None
  then show ?thesis using assms by (simp add: release_def)
next
  case (Some a)
  have fin: "finite (dom (allocatedPods n))" and fa: "finite (CPUSet a)"
    using assms Some by (auto simp: refInv_def)
  have pods: "allocatedPods (release u n) = (allocatedPods n)(u := None)"
    using Some by (simp add: release_def)
  have cpus: "allocatedCPUs (release u n) =
      releaseCPURefs (ToSliceNoSort (CPUSet a)) (allocatedCPUs n)"
    using Some by (simp add: release_def)
  have "case allocatedCPUs (release u n) c of
            None \<Rightarrow> podsUsing (release u n) c = {}
          | Some info \<Rightarrow> RefCount info = int (card (podsUsing (release u n) c))
                \<and> podsUsing (release u n) c \<noteq> {}" for c
  proof -
    have old: "case allocatedCPUs n c of
            None \<Rightarrow> podsUsing n c = {}
          | Some info \<Rightarrow> RefCount info = int (card (podsUsing n c)) \<and> podsUsing n c \<noteq> {}"
      using assms by (simp add: refInv_def)
    have pu: "podsUsing (release u n) c = podsUsing n c - {u}"
      by (rule podsUsing_release [OF Some])
    have finc: "finite (podsUsing n c)" by (rule podsUsing_finite [OF fin])
    show ?thesis
    proof (cases "c \<in> CPUSet a")
      case True
      then have uin: "u \<in> podsUsing n c" using Some by (auto simp: podsUsing_def)
      then obtain info where info: "allocatedCPUs n c = Some info"
        using old by (cases "allocatedCPUs n c") auto
      have rc: "RefCount info = int (card (podsUsing n c))" using old info by simp
      have card: "card (podsUsing n c - {u}) = card (podsUsing n c) - 1"
        using uin finc by simp
      have pos: "card (podsUsing n c) \<ge> 1"
        using uin finc card_gt_0_iff [of "podsUsing n c"] by auto
      have "podsUsing n c - {u} = {} \<longleftrightarrow> card (podsUsing n c - {u}) = 0"
        using finc by simp
      then have e: "podsUsing n c - {u} = {} \<longleftrightarrow> card (podsUsing n c) = 1"
        using card pos by linarith
      show ?thesis
        using True info rc card pos e fa
        by (auto simp: cpus pu releaseCPURefs_apply ToSliceNoSort_distinct ToSliceNoSort_set
            split: option.splits)
    next
      case False
      then have "u \<notin> podsUsing n c" using Some by (auto simp: podsUsing_def)
      then have "podsUsing n c - {u} = podsUsing n c" by simp
      then show ?thesis
        using False old fa
        by (simp add: cpus pu releaseCPURefs_apply ToSliceNoSort_distinct ToSliceNoSort_set
            split: option.splits)
    qed
  qed
  then show ?thesis
    using assms by (auto simp: refInv_def pods)
qed

lemma refInv_add:
  assumes "refInv n" and fa: "finite (CPUSet a)" and t: "topologyUnreferenced t"
  shows "refInv (addPodAllocation a t n)"
proof (cases "allocatedPods n (UID a)")
  case (Some b)
  then show ?thesis using assms by (simp add: addPodAllocation_def)
next
  case None
  have fin: "finite (dom (allocatedPods n))"
    using assms by (auto simp: refInv_def)
  have pods: "allocatedPods (addPodAllocation a t n) = (allocatedPods n)(UID a \<mapsto> a)"
    using None by (simp add: addPodAllocation_def)
  have cpus: "allocatedCPUs (addPodAllocation a t n) =
      addCPURefs t (CPUExclusivePolicy a) (ToSliceNoSort (CPUSet a)) (allocatedCPUs n)"
    using None by (simp add: addPodAllocation_def)
  have zero: "RefCount (lookupCPUInfo (CPUDetails t) c) = 0" for c
    using t by (auto simp: topologyUnreferenced_def lookupCPUInfo_def zeroCPUInfo_def
        split: option.splits)
  have "case allocatedCPUs (addPodAllocation a t n) c of
            None \<Rightarrow> podsUsing (addPodAllocation a t n) c = {}
          | Some info \<Rightarrow> RefCount info = int (card (podsUsing (addPodAllocation a t n) c))
                \<and> podsUsing (addPodAllocation a t n) c \<noteq> {}" for c
  proof -
    have old: "case allocatedCPUs n c of
            None \<Rightarrow> podsUsing n c = {}
          | Some info \<Rightarrow> RefCount info = int (card (podsUsing n c)) \<and> podsUsing n c \<noteq> {}"
      using assms by (simp add: refInv_def)
    have pu: "podsUsing (addPodAllocation a t n) c =
        (if c \<in> CPUSet a then insert (UID a) (podsUsing n c) else podsUsing n c)"
      by (rule podsUsing_add [OF None])
    have finc: "finite (podsUsing n c)" by (rule podsUsing_finite [OF fin])
    have notin: "UID a \<notin> podsUsing n c" using None by (auto simp: podsUsing_def)
    show ?thesis
      using old finc notin fa zero [of c]
      by (auto simp: cpus pu addCPURefs_apply ToSliceNoSort_distinct ToSliceNoSort_set
          split: option.splits)
  qed
  then show ?thesis
    using assms by (auto simp: refInv_def pods)
qed

lemma release_absent: "allocatedPods (release u n) u = None"
  by (simp add: release_def split: option.splits)

lemma refInv_applyOperation: "refInv n \<Longrightarrow> operationOK x \<Longrightarrow> refInv (applyOperation n x)"
  by (cases x) (auto simp: update_def intro: refInv_add refInv_release)

lemma refInv_foldl:
  "refInv n \<Longrightarrow> \<forall>x\<in>set ops. operationOK x \<Longrightarrow> refInv (foldl applyOperation n ops)"
  by (induction ops arbitrary: n) (auto intro: refInv_applyOperation)

lemma topology4_unreferenced: "topologyUnreferenced topology4"
  by (auto simp: topologyUnreferenced_def topology4_def cpuInfoOf_def split: if_splits)

lemma ToSliceNoSort_01: "ToSliceNoSort {0, 1} = [0, 1]"
  by (simp add: ToSliceNoSort_def)

lemma ToSliceNoSort_12: "ToSliceNoSort {1, 2} = [1, 2]"
  by (simp add: ToSliceNoSort_def)

lemma two_updates_cpu1:
  "allocatedCPUs (runOperations [OpUpdate podA topology4, OpUpdate podB topology4]
      (NewNodeAllocation ''node'')) 1 =
   Some \<lparr>CPUID = 1, CoreID = 0, SocketID = 0, NodeID = 0, RefCount = 2,
         ExclusivePolicy = ''NUMANodeLevel''\<rparr>"
  by (simp add: runOperations_def update_def release_def addPodAllocation_def
      NewNodeAllocation_def podA_def podB_def ToSliceNoSort_01 ToSliceNoSort_12
      topology4_def cpuInfoOf_def lookupCPUInfo_def)

text \<open>
  Claim C1.  After any run of updates and releases from the empty allocation of
  \<open>NewNodeAllocation\<close>, the \<open>RefCount\<close> recorded for a CPU is the number of recorded
  pods whose CPU set holds it, and the CPU has no record exactly when no recorded pod
  holds it.  The updates are those of the program: a finite CPU set, and a topology
  whose entries count no reference.
\<close>

theorem refcount_is_multiplicity:
  assumes "\<forall>x\<in>set ops. operationOK x"
  shows "(\<forall>info. allocatedCPUs (runOperations ops (NewNodeAllocation name)) c = Some info \<longrightarrow>
            RefCount info = int (card (podsUsing (runOperations ops (NewNodeAllocation name)) c)))
     \<and> (allocatedCPUs (runOperations ops (NewNodeAllocation name)) c = None \<longleftrightarrow>
          podsUsing (runOperations ops (NewNodeAllocation name)) c = {})"
proof -
  have "refInv (runOperations ops (NewNodeAllocation name))"
    unfolding runOperations_def using refInv_New assms by (rule refInv_foldl)
  then have "case allocatedCPUs (runOperations ops (NewNodeAllocation name)) c of
            None \<Rightarrow> podsUsing (runOperations ops (NewNodeAllocation name)) c = {}
          | Some info \<Rightarrow>
              RefCount info = int (card (podsUsing (runOperations ops (NewNodeAllocation name)) c))
              \<and> podsUsing (runOperations ops (NewNodeAllocation name)) c \<noteq> {}"
    by (simp add: refInv_def)
  then show ?thesis by (auto split: option.splits)
qed

theorem refcount_is_multiplicity_witness:
  "list_all operationOK [OpUpdate podA topology4, OpUpdate podB topology4] \<and>
   card (podsUsing (runOperations [OpUpdate podA topology4, OpUpdate podB topology4]
      (NewNodeAllocation ''node'')) 1) = 2"
proof -
  have ok: "\<forall>x\<in>set [OpUpdate podA topology4, OpUpdate podB topology4]. operationOK x"
    by (simp add: topology4_unreferenced podA_def podB_def)
  show ?thesis
    using refcount_is_multiplicity [OF ok, of "''node''" 1] two_updates_cpu1 ok
    by simp
qed

section \<open>Resource lists\<close>

lemma ResourceList_eqI:
  "dom a = dom b \<Longrightarrow> (\<And>key. valOf a key = valOf b key) \<Longrightarrow> a = (b::ResourceList)"
proof (rule ext)
  fix key
  assume d: "dom a = dom b" and v: "\<And>key. valOf a key = valOf b key"
  show "a key = b key"
  proof (cases "a key")
    case None
    then have "key \<notin> dom a" by (simp add: domIff)
    with d have "key \<notin> dom b" by simp
    then show ?thesis using None by (simp add: domIff)
  next
    case (Some x)
    then have "key \<in> dom a" by (simp add: domIff)
    with d have "key \<in> dom b" by simp
    then obtain y where "b key = Some y" by (auto simp: domIff)
    then show ?thesis using Some v [of key] by (simp add: valOf_def)
  qed
qed

lemma dom_Add: "dom (Add a b) = dom a \<union> dom b"
  by (auto simp: Add_def dom_def split: option.splits)

lemma valOf_Add: "valOf (Add a b) key = valOf a key + valOf b key"
  by (simp add: Add_def valOf_def split: option.splits)

lemma dom_Subtract: "dom (SubtractWithNonNegativeResult a b) = dom a \<union> dom b"
  by (auto simp: SubtractWithNonNegativeResult_def dom_def Let_def split: option.splits)

lemma valOf_Subtract:
  "valOf (SubtractWithNonNegativeResult a b) key =
     (if key \<in> dom a then max 0 (valOf a key - valOf b key) else 0)"
  by (auto simp: SubtractWithNonNegativeResult_def valOf_def Let_def dom_def split: option.splits)

lemma nonNegative_valOf: "nonNegative a \<Longrightarrow> 0 \<le> valOf a key"
  by (simp add: nonNegative_def valOf_def split: option.splits)

lemma nonNegative_Subtract: "nonNegative (SubtractWithNonNegativeResult a b)"
  by (auto simp: nonNegative_def SubtractWithNonNegativeResult_def Let_def split: option.splits)

lemma nonNegative_Add: "nonNegative a \<Longrightarrow> nonNegative b \<Longrightarrow> nonNegative (Add a b)"
  by (auto simp: nonNegative_def Add_def split: option.splits)

lemma dom_foldl_Add: "dom (foldl Add a qs) = dom a \<union> \<Union> (dom ` set qs)"
  by (induction qs arbitrary: a) (auto simp: dom_Add)

lemma valOf_foldl_Add:
  "valOf (foldl Add a qs) key = valOf a key + sum_list (map (\<lambda>q. valOf q key) qs)"
  by (induction qs arbitrary: a) (auto simp: valOf_Add)

lemma dom_foldl_Subtract:
  "dom (foldl SubtractWithNonNegativeResult a qs) = dom a \<union> \<Union> (dom ` set qs)"
  by (induction qs arbitrary: a) (auto simp: dom_Subtract)

lemma sum_list_nonneg_valOf:
  "\<forall>q\<in>set qs. nonNegative q \<Longrightarrow> 0 \<le> sum_list (map (\<lambda>q. valOf q key) qs)"
  by (induction qs) (auto simp: nonNegative_valOf intro: add_nonneg_nonneg)

lemma valOf_foldl_Subtract:
  "\<forall>q\<in>set qs. nonNegative q \<Longrightarrow> sum_list (map (\<lambda>q. valOf q key) qs) \<le> valOf a key \<Longrightarrow>
   valOf (foldl SubtractWithNonNegativeResult a qs) key =
     valOf a key - sum_list (map (\<lambda>q. valOf q key) qs)"
proof (induction qs arbitrary: a)
  case Nil
  then show ?case by simp
next
  case (Cons q qs)
  have q0: "0 \<le> valOf q key" using Cons.prems(1) by (simp add: nonNegative_valOf)
  have s0: "0 \<le> sum_list (map (\<lambda>q. valOf q key) qs)"
    using Cons.prems(1) by (simp add: sum_list_nonneg_valOf)
  have le: "valOf q key + sum_list (map (\<lambda>q. valOf q key) qs) \<le> valOf a key"
    using Cons.prems(2) by simp
  have step: "valOf (SubtractWithNonNegativeResult a q) key = valOf a key - valOf q key"
  proof (cases "key \<in> dom a")
    case True
    then show ?thesis using le s0 by (simp add: valOf_Subtract)
  next
    case False
    then have "valOf a key = 0" by (auto simp: valOf_def dom_def split: option.splits)
    then show ?thesis using False le s0 q0 by (simp add: valOf_Subtract)
  qed
  have "valOf (foldl SubtractWithNonNegativeResult (SubtractWithNonNegativeResult a q) qs) key =
      valOf (SubtractWithNonNegativeResult a q) key - sum_list (map (\<lambda>q. valOf q key) qs)"
    using Cons.prems(1) le step by (intro Cons.IH) auto
  then show ?case using step by simp
qed

lemma add_release_add_resources:
  assumes "nonNegative a" and "\<forall>q\<in>set qs. nonNegative q"
  shows "foldl Add (foldl SubtractWithNonNegativeResult (foldl Add a qs) qs) qs = foldl Add a qs"
proof (rule ResourceList_eqI)
  show "dom (foldl Add (foldl SubtractWithNonNegativeResult (foldl Add a qs) qs) qs) =
      dom (foldl Add a qs)"
    by (auto simp: dom_foldl_Add dom_foldl_Subtract)
next
  fix key
  have "sum_list (map (\<lambda>q. valOf q key) qs) \<le> valOf (foldl Add a qs) key"
    using assms(1) by (simp add: valOf_foldl_Add nonNegative_valOf)
  then have "valOf (foldl SubtractWithNonNegativeResult (foldl Add a qs) qs) key = valOf a key"
    using assms(2) by (simp add: valOf_foldl_Subtract valOf_foldl_Add)
  then show "valOf (foldl Add (foldl SubtractWithNonNegativeResult (foldl Add a qs) qs) qs) key =
      valOf (foldl Add a qs) key"
    by (simp add: valOf_foldl_Add)
qed

lemma Add_empty: "Add Map.empty b = b"
  by (rule ext) (simp add: Add_def)

lemma addNUMAResources_resOf:
  "resOf (addNUMAResources i rs m) node =
     foldl Add (resOf m node) (map Resources (filter (\<lambda>r. Node r = node) rs))"
proof (induction rs arbitrary: i m)
  case Nil
  then show ?case by simp
next
  case (Cons x rs)
  show ?case
  proof (cases "Node x = node")
    case True
    then show ?thesis
      by (simp add: Let_def Cons.IH) (simp add: resOf_def Add_empty split: option.splits)
  next
    case False
    then show ?thesis
      by (simp add: Let_def Cons.IH) (simp add: resOf_def)
  qed
qed

lemma addNUMAResources_None:
  "addNUMAResources i rs m node = None \<longleftrightarrow> m node = None \<and> node \<notin> Node ` set rs"
proof (induction rs arbitrary: i m)
  case Nil
  then show ?case by simp
next
  case (Cons x rs)
  show ?case by (cases "Node x = node") (auto simp: Let_def Cons.IH)
qed

lemma addNUMAResources_Node:
  "m node \<noteq> None \<Longrightarrow>
   map_option Node (addNUMAResources i rs m node) = map_option Node (m node)"
proof (induction rs arbitrary: i m)
  case Nil
  then show ?case by simp
next
  case (Cons x rs)
  show ?case
  proof (cases "Node x = node")
    case True
    then show ?thesis using Cons.prems
      by (auto simp: Let_def Cons.IH split: option.splits)
  next
    case False
    then show ?thesis using Cons.prems
      by (simp add: Let_def Cons.IH)
  qed
qed

lemma releaseNUMAResources_None:
  "releaseNUMAResources rs m node = None \<longleftrightarrow> m node = None"
proof (induction rs arbitrary: m)
  case Nil
  then show ?case by simp
next
  case (Cons x rs)
  show ?case by (cases "Node x = node") (auto simp: Cons.IH split: option.splits)
qed

lemma resOf_upd:
  "resOf (m(k \<mapsto> r)) node = (if node = k then Resources r else resOf m node)"
  by (simp add: resOf_def)

lemma releaseNUMAResources_resOf:
  "resOf (releaseNUMAResources rs m) node =
     foldl SubtractWithNonNegativeResult (resOf m node)
       (map Resources (filter (\<lambda>r. Node r = node \<and> m node \<noteq> None) rs))"
proof (induction rs arbitrary: m)
  case Nil
  then show ?case by simp
next
  case (Cons x rs)
  show ?case
  proof (cases "m (Node x)")
    case None
    then show ?thesis by (cases "Node x = node") (auto simp: Cons.IH)
  next
    case (Some r)
    have here: "resOf m (Node x) = Resources r" using Some by (simp add: resOf_def)
    show ?thesis
    proof (cases "Node x = node")
      case True
      then show ?thesis using Some here by (simp add: Cons.IH) (simp add: resOf_def)
    next
      case False
      then show ?thesis using Some by (simp add: Cons.IH) (simp add: resOf_def)
    qed
  qed
qed

lemma releaseNUMAResources_Node:
  "map_option Node (releaseNUMAResources rs m node) = map_option Node (m node)"
proof (induction rs arbitrary: m)
  case Nil
  then show ?case by simp
next
  case (Cons x rs)
  show ?case
  proof (cases "m (Node x)")
    case None
    then show ?thesis by (simp add: Cons.IH)
  next
    case (Some r)
    then show ?thesis by (cases "Node x = node") (auto simp: Cons.IH)
  qed
qed

lemma NUMA_map_eqI:
  assumes "\<And>node. map_option Node (m node) = map_option Node (m' node)"
      and "\<And>node. resOf m node = resOf m' node"
  shows "m = (m' :: int \<rightharpoonup> NUMANodeResource)"
proof (rule ext)
  fix node
  show "m node = m' node"
    using assms(1) [of node] assms(2) [of node]
    by (cases "m node"; cases "m' node") (auto simp: resOf_def)
qed



lemma nonNegative_foldl_Subtract:
  "nonNegative a \<Longrightarrow> nonNegative (foldl SubtractWithNonNegativeResult a qs)"
  by (induction qs arbitrary: a) (auto simp: nonNegative_Subtract)

lemma nonNegative_foldl_Add:
  "nonNegative a \<Longrightarrow> \<forall>q\<in>set qs. nonNegative q \<Longrightarrow> nonNegative (foldl Add a qs)"
  by (induction qs arbitrary: a) (auto simp: nonNegative_Add)

lemma nonNegative_empty: "nonNegative Map.empty"
  by (simp add: nonNegative_def)

lemma nonNegative_resOf:
  "(\<forall>node res. m node = Some res \<longrightarrow> nonNegative (Resources res)) \<longleftrightarrow>
   (\<forall>node. nonNegative (resOf m node))"
  by (auto simp: resOf_def nonNegative_empty split: option.splits)

lemma add_release_add_CPUs:
  assumes d: "distinct xs" and nz: "\<forall>c info. m c = Some info \<longrightarrow> RefCount info \<noteq> 0"
  shows "addCPURefs t p xs (releaseCPURefs xs (addCPURefs t p xs m)) = addCPURefs t p xs m"
proof (rule ext)
  fix c
  show "addCPURefs t p xs (releaseCPURefs xs (addCPURefs t p xs m)) c = addCPURefs t p xs m c"
  proof (cases "m c")
    case None
    then show ?thesis
      by (simp add: addCPURefs_apply [OF d] releaseCPURefs_apply [OF d])
  next
    case (Some info)
    then have "RefCount info \<noteq> 0" using nz by blast
    then show ?thesis using Some
      by (simp add: addCPURefs_apply [OF d] releaseCPURefs_apply [OF d])
  qed
qed

lemma add_release_add_NUMA:
  assumes m: "\<forall>node. nonNegative (resOf m node)"
      and rs: "\<forall>res\<in>set rs. nonNegative (Resources res)"
  shows "addNUMAResources 0 rs (releaseNUMAResources rs (addNUMAResources 0 rs m)) =
         addNUMAResources 0 rs m"
proof (rule NUMA_map_eqI)
  fix node
  let ?P = "addNUMAResources 0 rs m"
  let ?qs = "map Resources (filter (\<lambda>r. Node r = node) rs)"
  have qs: "\<forall>q\<in>set ?qs. nonNegative q" using rs by auto
  show "map_option Node (addNUMAResources 0 rs (releaseNUMAResources rs ?P) node) =
        map_option Node (?P node)"
  proof (cases "?P node")
    case None
    then have "releaseNUMAResources rs ?P node = None"
      by (simp add: releaseNUMAResources_None)
    moreover have "node \<notin> Node ` set rs" using None by (simp add: addNUMAResources_None)
    ultimately have "addNUMAResources 0 rs (releaseNUMAResources rs ?P) node = None"
      by (simp add: addNUMAResources_None)
    then show ?thesis using None by simp
  next
    case (Some r)
    then have "releaseNUMAResources rs ?P node \<noteq> None"
      by (simp add: releaseNUMAResources_None)
    then show ?thesis
      by (simp add: addNUMAResources_Node releaseNUMAResources_Node)
  qed
  show "resOf (addNUMAResources 0 rs (releaseNUMAResources rs ?P)) node = resOf ?P node"
  proof (cases "?P node")
    case None
    then have "node \<notin> Node ` set rs" by (simp add: addNUMAResources_None)
    then have "filter (\<lambda>r. Node r = node) rs = []" by (auto simp: filter_empty_conv)
    then show ?thesis using None
      by (simp add: addNUMAResources_resOf releaseNUMAResources_resOf)
  next
    case (Some r)
    then show ?thesis
      using add_release_add_resources [of "resOf m node" ?qs] m qs
      by (simp add: addNUMAResources_resOf releaseNUMAResources_resOf)
  qed
qed

lemma ledgerOK_release: "ledgerOK n \<Longrightarrow> ledgerOK (release u n)"
proof (cases "allocatedPods n u")
  case None
  assume "ledgerOK n"
  then show ?thesis using None by (simp add: release_def)
next
  case (Some a)
  assume ok: "ledgerOK n"
  have c: "\<forall>c info. allocatedCPUs (release u n) c = Some info \<longrightarrow> 0 < RefCount info"
    using ok Some
    by (auto simp: release_def ledgerOK_def releaseCPURefs_apply ToSliceNoSort_distinct
        split: if_splits option.splits) fastforce
  have "\<forall>node. nonNegative (resOf (allocatedResources n) node)"
    using ok by (simp add: ledgerOK_def nonNegative_resOf)
  then have "\<forall>node. nonNegative (resOf (allocatedResources (release u n)) node)"
    using Some by (simp add: release_def releaseNUMAResources_resOf nonNegative_foldl_Subtract)
  then show ?thesis using c by (simp add: ledgerOK_def nonNegative_resOf)
qed

lemma ledgerOK_add:
  assumes ok: "ledgerOK n" and a: "podOK a" and t: "topologyNonNegative t"
  shows "ledgerOK (addPodAllocation a t n)"
proof (cases "allocatedPods n (UID a)")
  case (Some b)
  then show ?thesis using ok by (simp add: addPodAllocation_def)
next
  case None
  have z: "0 \<le> RefCount (lookupCPUInfo (CPUDetails t) c)" for c
    using t by (auto simp: topologyNonNegative_def lookupCPUInfo_def zeroCPUInfo_def
        split: option.splits)
  have c: "\<forall>c info. allocatedCPUs (addPodAllocation a t n) c = Some info \<longrightarrow> 0 < RefCount info"
  proof (intro allI impI)
    fix c info
    assume h: "allocatedCPUs (addPodAllocation a t n) c = Some info"
    show "0 < RefCount info"
    proof (cases "allocatedCPUs n c")
      case None
      then show ?thesis using h \<open>allocatedPods n (UID a) = None\<close> z [of c]
        by (auto simp: addPodAllocation_def addCPURefs_apply ToSliceNoSort_distinct
            split: if_splits)
    next
      case (Some i)
      then have "0 < RefCount i" using ok by (auto simp: ledgerOK_def)
      then show ?thesis using h \<open>allocatedPods n (UID a) = None\<close> Some
        by (auto simp: addPodAllocation_def addCPURefs_apply ToSliceNoSort_distinct
            split: if_splits)
    qed
  qed
  have "\<forall>node. nonNegative (resOf (allocatedResources n) node)"
    using ok by (simp add: ledgerOK_def nonNegative_resOf)
  moreover have "\<forall>q\<in>set (map Resources (filter (\<lambda>r. Node r = node) (NUMANodeResources a))).
      nonNegative q" for node
    using a by (auto simp: podOK_def)
  ultimately have "\<forall>node. nonNegative (resOf (allocatedResources (addPodAllocation a t n)) node)"
    using None by (simp add: addPodAllocation_def addNUMAResources_resOf nonNegative_foldl_Add)
  then show ?thesis using c by (simp add: ledgerOK_def nonNegative_resOf)
qed

lemma update_twice:
  assumes ok: "ledgerOK n" and a: "podOK a"
  shows "update a t (update a t n) = update a t n"
proof -
  let ?r = "release (UID a) n"
  let ?xs = "ToSliceNoSort (CPUSet a)"
  have absent: "allocatedPods ?r (UID a) = None" by (rule release_absent)
  have okr: "ledgerOK ?r" using ok by (rule ledgerOK_release)
  have nz: "\<forall>c info. allocatedCPUs ?r c = Some info \<longrightarrow> RefCount info \<noteq> 0"
    using okr by (fastforce simp: ledgerOK_def)
  have nn: "\<forall>node. nonNegative (resOf (allocatedResources ?r) node)"
    using okr by (simp add: ledgerOK_def nonNegative_resOf)
  have rs: "\<forall>res\<in>set (NUMANodeResources a). nonNegative (Resources res)"
    using a by (simp add: podOK_def)
  have cpus: "addCPURefs t (CPUExclusivePolicy a) ?xs
      (releaseCPURefs ?xs (addCPURefs t (CPUExclusivePolicy a) ?xs (allocatedCPUs ?r))) =
      addCPURefs t (CPUExclusivePolicy a) ?xs (allocatedCPUs ?r)"
    using nz by (intro add_release_add_CPUs) (auto simp: ToSliceNoSort_distinct)
  have numa: "addNUMAResources 0 (NUMANodeResources a)
      (releaseNUMAResources (NUMANodeResources a)
         (addNUMAResources 0 (NUMANodeResources a) (allocatedResources ?r))) =
      addNUMAResources 0 (NUMANodeResources a) (allocatedResources ?r)"
    using nn rs by (rule add_release_add_NUMA)
  have "addPodAllocation a t (release (UID a) (addPodAllocation a t ?r)) = addPodAllocation a t ?r"
    using absent cpus numa by (simp add: addPodAllocation_def release_def)
  then show ?thesis by (simp add: update_def)
qed

section \<open>Idempotence of update\<close>

lemma ledgerOK_New: "ledgerOK (NewNodeAllocation name)"
  by (simp add: ledgerOK_def NewNodeAllocation_def)

lemma podOK_podA: "podOK podA"
  by (simp add: podOK_def podA_def nonNegative_def)

lemma ledgerOK_applyOperation:
  "ledgerOK n \<Longrightarrow> operationNonNegative x \<Longrightarrow> ledgerOK (applyOperation n x)"
  by (cases x) (auto simp: update_def intro: ledgerOK_add ledgerOK_release)

text \<open>Every allocation that non-negative updates and releases build keeps the invariants.\<close>

lemma ledgerOK_runOperations:
  "ledgerOK n \<Longrightarrow> \<forall>x\<in>set ops. operationNonNegative x \<Longrightarrow> ledgerOK (runOperations ops n)"
  unfolding runOperations_def
  by (induction ops arbitrary: n) (auto intro: ledgerOK_applyOperation)

lemma Update_twice:
  assumes ok: "\<forall>n. nodeAllocations c name = Some n \<longrightarrow> ledgerOK n" and a: "podOK a"
  shows "Update (Update c name a) name a = Update c name a"
proof (cases "CPUTopology (topologyOptionsManager c name)")
  case None
  then show ?thesis by (simp add: Update_def)
next
  case (Some t)
  show ?thesis
  proof (cases "IsValid t")
    case False
    then show ?thesis using Some by (simp add: Update_def)
  next
    case True
    have okv: "ledgerOK (fst (getOrCreateNodeAllocation c name))"
      using ok
      by (auto simp: getOrCreateNodeAllocation_def ledgerOK_New Let_def split: option.splits)
    have idem: "update a t (update a t (fst (getOrCreateNodeAllocation c name))) =
        update a t (fst (getOrCreateNodeAllocation c name))"
      using okv a by (rule update_twice)
    show ?thesis
      using Some True idem
      by (auto simp: Update_def getOrCreateNodeAllocation_def Let_def split: option.splits)
  qed
qed

text \<open>
  Claim C7.  An update of a pod allocation done twice in a row leaves the state that
  the first one left, for \<open>NodeAllocation.update\<close> and for \<open>resourceManager.Update\<close>.
  The state is one that keeps the invariants of the ledgers, as every state built by
  updates and releases does, and the quantities of the allocation are not negative.
\<close>

theorem update_idempotent:
  assumes "ledgerOK n" and "podOK a"
      and "\<forall>v. nodeAllocations c name = Some v \<longrightarrow> ledgerOK v"
  shows "update a t (update a t n) = update a t n
     \<and> Update (Update c name a) name a = Update c name a"
  using assms update_twice Update_twice by blast

theorem update_idempotent_witness:
  "ledgerOK (NewNodeAllocation ''node'') \<and> podOK podA \<and>
   nodeAllocations manager0 ''node'' = None \<and>
   update podA topology4 (update podA topology4 (NewNodeAllocation ''node'')) =
     update podA topology4 (NewNodeAllocation ''node'') \<and>
   Update (Update manager0 ''node'' podA) ''node'' podA = Update manager0 ''node'' podA"
  using update_idempotent [of "NewNodeAllocation ''node''" podA manager0 "''node''" topology4]
        ledgerOK_New podOK_podA
  by (simp add: manager0_def)

section \<open>Update without a topology\<close>

text \<open>
  Claim C10.  When the topology options of the node have no CPU topology, or one that is
  not valid, \<open>resourceManager.Update\<close> returns with the manager as it was: no node
  allocation is created or changed, and the method has no result to signal anything by.
\<close>

theorem Update_without_topology:
  assumes "CPUTopology (topologyOptionsManager c name) = None \<or>
           (\<exists>t. CPUTopology (topologyOptionsManager c name) = Some t \<and> \<not> IsValid t)"
  shows "Update c name allocation = c"
  using assms by (auto simp: Update_def)

theorem Update_without_topology_witness:
  "CPUTopology (topologyOptionsManager manager0 ''other'') = None \<and>
   Update manager0 ''other'' podA = manager0"
  using Update_without_topology [of manager0 "''other''" podA]
  by (simp add: manager0_def)

section \<open>Available CPUs\<close>

lemma dropPreferredRefs_apply:
  "distinct xs \<Longrightarrow> dropPreferredRefs xs m c =
     (if c \<in> set xs
      then (case m c of
              None \<Rightarrow> None
            | Some info \<Rightarrow> if RefCount info - 1 = 0 then None
                           else Some (info\<lparr>RefCount := RefCount info - 1\<rparr>))
      else m c)"
proof (induction xs arbitrary: m)
  case Nil
  then show ?case by simp
next
  case (Cons x xs)
  then show ?case by (auto simp: Let_def split: option.splits)
qed

text \<open>
  Claim C6.  \<open>getAvailableCPUs\<close> works on a copy of \<open>allocatedCPUs\<close> in which the
  reference count of every preferred CPU is one less and entries that reach zero are
  removed; it returns that copy, and as available the CPUs of the topology without those
  whose entry in the copy has a reference count of at least \<open>maxRefCount\<close> and without
  the reserved ones.
\<close>

theorem getAvailableCPUs_result:
  assumes "finite preferred"
  shows "snd (getAvailableCPUs n t maxRefCount reserved preferred) =
           adjustedCPUs (allocatedCPUs n) preferred
     \<and> fst (getAvailableCPUs n t maxRefCount reserved preferred) =
           dom (CPUDetails t)
           - {c. \<exists>info. adjustedCPUs (allocatedCPUs n) preferred c = Some info \<and>
                         maxRefCount \<le> RefCount info}
           - reserved"
proof -
  have adj: "(if preferred \<noteq> {}
              then dropPreferredRefs (ToSliceNoSort preferred) (allocatedCPUs n)
              else allocatedCPUs n) = adjustedCPUs (allocatedCPUs n) preferred"
    using assms
    by (auto simp: adjustedCPUs_def dropPreferredRefs_apply ToSliceNoSort_distinct
        ToSliceNoSort_set)
  have "{cpuID \<in> CPUs (adjustedCPUs (allocatedCPUs n) preferred).
           maxRefCount \<le> RefCount (lookupCPUInfo (adjustedCPUs (allocatedCPUs n) preferred) cpuID)} =
        {c. \<exists>info. adjustedCPUs (allocatedCPUs n) preferred c = Some info \<and>
                    maxRefCount \<le> RefCount info}"
    by (auto simp: CPUs_def lookupCPUInfo_def)
  then show ?thesis
    by (simp add: getAvailableCPUs_def adj Let_def CPUs_def)
qed

lemma topology4_dom: "dom (CPUDetails topology4) = {0, 1, 2, 3}"
  by (auto simp: topology4_def)

lemma ledger1_CPUs:
  "allocatedCPUs ledger1 =
     [0 \<mapsto> (cpuInfoOf 0 0 0)\<lparr>RefCount := 1, ExclusivePolicy := ''PCPULevel''\<rparr>,
      1 \<mapsto> (cpuInfoOf 1 0 0)\<lparr>RefCount := 2, ExclusivePolicy := ''NUMANodeLevel''\<rparr>,
      2 \<mapsto> (cpuInfoOf 2 1 0)\<lparr>RefCount := 1, ExclusivePolicy := ''NUMANodeLevel''\<rparr>]"
  by (rule ext)
     (simp add: ledger1_def update_def release_def addPodAllocation_def
      NewNodeAllocation_def podA_def podB_def ToSliceNoSort_01 ToSliceNoSort_12
      topology4_def cpuInfoOf_def lookupCPUInfo_def)

lemma ledger1_none_full:
  "{c. \<exists>info. adjustedCPUs (allocatedCPUs ledger1) {0, 1} c = Some info \<and>
               2 \<le> RefCount info} = {}"
proof -
  have "\<not> (adjustedCPUs (allocatedCPUs ledger1) {0, 1} c = Some info \<and> 2 \<le> RefCount info)"
    for c info
    by (cases "c = 0"; cases "c = 1"; cases "c = 2")
       (auto simp: ledger1_CPUs adjustedCPUs_def cpuInfoOf_def)
  then show ?thesis by blast
qed

theorem getAvailableCPUs_result_witness:
  "finite {0::int, 1} \<and>
   fst (getAvailableCPUs ledger1 topology4 2 {3} {0, 1}) = {0, 1, 2}"
proof -
  have fin: "finite {0::int, 1}" by simp
  have "fst (getAvailableCPUs ledger1 topology4 2 {3} {0, 1}) = {0, 1, 2, 3} - {} - {3}"
    using getAvailableCPUs_result [OF fin, of ledger1 topology4 2 "{3}"]
    by (simp only: ledger1_none_full topology4_dom)
  moreover have "{0, 1, 2, 3} - {} - {3} = {0, 1, 2::int}" by auto
  ultimately show ?thesis by simp
qed

section \<open>The required bind policy\<close>

lemma Cores_KeepOnly: "Cores (KeepOnly (CPUDetails t) cpus) = coresOf t cpus"
  by (auto simp: Cores_def KeepOnly_def coresOf_def ran_def split: if_splits)

text \<open>
  Claim C9.  \<open>satisfiedRequiredCPUBindPolicy\<close> returns no error under \<open>FullPCPUs\<close>
  exactly when the number of cores the set lies on, times \<open>CPUsPerCore\<close>, is the size of
  the set, and under \<open>SpreadByPCPUs\<close> exactly when the number of cores is the size of the
  set; the only error it returns on a topology is the one that names the policy.
\<close>

theorem satisfiedRequiredCPUBindPolicy_iff:
  "(satisfiedRequiredCPUBindPolicy CPUBindPolicyFullPCPUs cpus (Some t) = None \<longleftrightarrow>
      int (card (coresOf t cpus)) * CPUsPerCore t = int (card cpus))
   \<and> (satisfiedRequiredCPUBindPolicy CPUBindPolicySpreadByPCPUs cpus (Some t) = None \<longleftrightarrow>
      card (coresOf t cpus) = card cpus)
   \<and> (satisfiedRequiredCPUBindPolicy policy cpus (Some t) = None \<or>
      satisfiedRequiredCPUBindPolicy policy cpus (Some t) = Some (BindPolicyUnsatisfied policy))"
  by (simp add: satisfiedRequiredCPUBindPolicy_def determineFullPCPUs_def
      determineSpreadByPCPUs_def Cores_KeepOnly Size_def
      CPUBindPolicyFullPCPUs_def CPUBindPolicySpreadByPCPUs_def)

lemma perCore4: "CPUsPerCore topology4 = 2"
  by (simp add: topology4_def)

lemma coresOf_empty: "coresOf t {} = {}"
  by (simp add: coresOf_def)

lemma coresOf_insert:
  "coresOf t (insert c s) =
     (case CPUDetails t c of
        Some info \<Rightarrow> insert (CoreID info) (coresOf t s)
      | None \<Rightarrow> coresOf t s)"
  by (cases "CPUDetails t c") (auto simp: coresOf_def)

lemma coresOf_01: "coresOf topology4 {0, 1} = {0}"
  by (simp add: coresOf_insert coresOf_empty topology4_def cpuInfoOf_def)

lemma coresOf_02: "coresOf topology4 {0, 2} = {0, 1}"
  by (simp add: coresOf_insert coresOf_empty topology4_def cpuInfoOf_def)

theorem satisfiedRequiredCPUBindPolicy_iff_witness:
  "satisfiedRequiredCPUBindPolicy CPUBindPolicyFullPCPUs {0, 1} (Some topology4) = None \<and>
   satisfiedRequiredCPUBindPolicy CPUBindPolicyFullPCPUs {0, 2} (Some topology4) =
     Some (BindPolicyUnsatisfied CPUBindPolicyFullPCPUs) \<and>
   satisfiedRequiredCPUBindPolicy CPUBindPolicySpreadByPCPUs {0, 2} (Some topology4) = None \<and>
   satisfiedRequiredCPUBindPolicy CPUBindPolicySpreadByPCPUs {0, 1} (Some topology4) =
     Some (BindPolicyUnsatisfied CPUBindPolicySpreadByPCPUs)"
  using satisfiedRequiredCPUBindPolicy_iff [of "{0, 1}" topology4 CPUBindPolicyFullPCPUs]
        satisfiedRequiredCPUBindPolicy_iff [of "{0, 2}" topology4 CPUBindPolicyFullPCPUs]
        satisfiedRequiredCPUBindPolicy_iff [of "{0, 2}" topology4 CPUBindPolicySpreadByPCPUs]
        satisfiedRequiredCPUBindPolicy_iff [of "{0, 1}" topology4 CPUBindPolicySpreadByPCPUs]
  by (auto simp: coresOf_01 coresOf_02 perCore4)

section \<open>Update followed by release\<close>

lemma release_add_CPUs:
  assumes d: "distinct xs" and pos: "\<forall>c info. m c = Some info \<longrightarrow> RefCount info \<noteq> 0"
      and t: "topologyUnreferenced t"
  shows "releaseCPURefs xs (addCPURefs t p xs m) = withPolicy p (set xs) m"
proof (rule ext)
  fix c
  have z: "RefCount (lookupCPUInfo (CPUDetails t) c) = 0"
    using t by (auto simp: topologyUnreferenced_def lookupCPUInfo_def zeroCPUInfo_def
        split: option.splits)
  show "releaseCPURefs xs (addCPURefs t p xs m) c = withPolicy p (set xs) m c"
  proof (cases "m c")
    case None
    then show ?thesis using z
      by (simp add: addCPURefs_apply [OF d] releaseCPURefs_apply [OF d] withPolicy_def)
  next
    case (Some info)
    then have "RefCount info \<noteq> 0" using pos by blast
    then show ?thesis using Some
      by (simp add: addCPURefs_apply [OF d] releaseCPURefs_apply [OF d] withPolicy_def)
  qed
qed

lemma release_add_NUMA_quantity:
  assumes m: "\<forall>node. nonNegative (resOf m node)"
      and rs: "\<forall>res\<in>set rs. nonNegative (Resources res)"
  shows "quantityAt (releaseNUMAResources rs (addNUMAResources i rs m)) node key =
         quantityAt m node key"
proof -
  let ?qs = "map Resources (filter (\<lambda>r. Node r = node) rs)"
  have qs: "\<forall>q\<in>set ?qs. nonNegative q" using rs by auto
  show ?thesis
  proof (cases "addNUMAResources i rs m node")
    case None
    then have "m node = None" "node \<notin> Node ` set rs" by (simp_all add: addNUMAResources_None)
    moreover from this have "filter (\<lambda>r. Node r = node) rs = []"
      by (auto simp: filter_empty_conv)
    ultimately show ?thesis using None
      by (simp add: quantityAt_def releaseNUMAResources_resOf addNUMAResources_resOf)
  next
    case (Some r)
    have le: "sum_list (map (\<lambda>q. valOf q key) ?qs) \<le> valOf (foldl Add (resOf m node) ?qs) key"
      using m by (simp add: valOf_foldl_Add nonNegative_valOf)
    show ?thesis using Some qs le
      by (simp add: quantityAt_def releaseNUMAResources_resOf addNUMAResources_resOf
          valOf_foldl_Subtract valOf_foldl_Add)
  qed
qed

lemma dom_broughtIn:
  "\<Union> (dom ` set (map Resources (filter (\<lambda>r. Node r = node) rs))) = broughtIn rs node"
  by (auto simp: broughtIn_def)

lemma broughtIn_empty: "node \<notin> Node ` set rs \<Longrightarrow> broughtIn rs node = {}"
  by (auto simp: broughtIn_def)

lemma release_add_NUMA_dom:
  "dom (releaseNUMAResources rs (addNUMAResources i rs m)) = dom m \<union> Node ` set rs"
proof (rule set_eqI)
  fix node
  have n: "releaseNUMAResources rs (addNUMAResources i rs m) node = None \<longleftrightarrow>
      m node = None \<and> node \<notin> Node ` set rs"
    unfolding releaseNUMAResources_None addNUMAResources_None ..
  show "node \<in> dom (releaseNUMAResources rs (addNUMAResources i rs m)) \<longleftrightarrow>
      node \<in> dom m \<union> Node ` set rs"
    unfolding domIff Un_iff n by simp
qed

lemma release_add_NUMA_kept:
  assumes "m node = Some res"
  shows "\<exists>res'. releaseNUMAResources rs (addNUMAResources i rs m) node = Some res' \<and>
           Node res' = Node res"
proof -
  have "map_option Node (releaseNUMAResources rs (addNUMAResources i rs m) node) =
      Some (Node res)"
    using assms by (simp add: releaseNUMAResources_Node addNUMAResources_Node)
  then show ?thesis by auto
qed

lemma release_add_NUMA_resOf:
  assumes m: "\<forall>node. nonNegative (resOf m node)"
      and rs: "\<forall>res\<in>set rs. nonNegative (Resources res)"
  shows "resOf (releaseNUMAResources rs (addNUMAResources i rs m)) node = residueAt rs m node"
proof -
  let ?qs = "map Resources (filter (\<lambda>r. Node r = node) rs)"
  let ?m' = "releaseNUMAResources rs (addNUMAResources i rs m)"
  show ?thesis
  proof (cases "node \<in> Node ` set rs")
    case False
    then have e: "filter (\<lambda>r. Node r = node \<and> P) rs = []"
      and e': "filter (\<lambda>r. Node r = node) rs = []" for P
      by (auto simp: filter_empty_conv)
    have "resOf ?m' node = resOf m node"
      by (simp add: releaseNUMAResources_resOf addNUMAResources_resOf e e')
    moreover have "residueAt rs m node = resOf m node"
      using False by (rule_tac ext) (simp add: residueAt_def broughtIn_empty split: option.splits)
    ultimately show ?thesis by simp
  next
    case True
    then have some: "addNUMAResources i rs m node \<noteq> None"
      by (simp add: addNUMAResources_None)
    have l: "resOf ?m' node = foldl SubtractWithNonNegativeResult (foldl Add (resOf m node) ?qs) ?qs"
      using some by (simp add: releaseNUMAResources_resOf addNUMAResources_resOf)
    show ?thesis
    proof (rule ResourceList_eqI)
      show "dom (resOf ?m' node) = dom (residueAt rs m node)"
        unfolding l residueAt_def dom_foldl_Subtract dom_foldl_Add dom_broughtIn
        by (auto simp: domIff split: option.splits if_splits)
    next
      fix key
      have qs: "\<forall>q\<in>set ?qs. nonNegative q" using rs by auto
      have le: "sum_list (map (\<lambda>q. valOf q key) ?qs) \<le> valOf (foldl Add (resOf m node) ?qs) key"
        using m by (simp add: valOf_foldl_Add nonNegative_valOf)
      have "valOf (resOf ?m' node) key = valOf (resOf m node) key"
        unfolding l using qs le by (simp add: valOf_foldl_Subtract valOf_foldl_Add)
      moreover have "valOf (residueAt rs m node) key = valOf (resOf m node) key"
        by (simp add: residueAt_def valOf_def split: option.splits)
      ultimately show "valOf (resOf ?m' node) key = valOf (residueAt rs m node) key"
        by simp
    qed
  qed
qed

text \<open>
  Claim C8, as amended.  For a pod that the state does not record yet, on a state that
  keeps the invariants of the ledgers, with an allocation of non-negative quantities and
  a topology whose entries count no reference, an update followed by the release of the
  pod gives back the name of the node and \<open>allocatedPods\<close>.  It gives back
  \<open>allocatedCPUs\<close> but for the exclusive policy of the CPUs of the allocation, which is
  now the policy of the allocation.  In \<open>allocatedResources\<close> the NUMA nodes recorded
  are those of before and those of the allocation; a record of before is still the
  record of its node; and the resources recorded for a node are those of before, each
  with the quantity of before, and those that the allocation named for the node, with
  quantity zero when the state did not record them.
\<close>

theorem update_then_release:
  assumes ok: "ledgerOK n" and a: "podOK a" and new: "allocatedPods n (UID a) = None"
      and fin: "finite (CPUSet a)" and t: "topologyUnreferenced t"
  shows "nodeName (release (UID a) (update a t n)) = nodeName n
     \<and> allocatedPods (release (UID a) (update a t n)) = allocatedPods n
     \<and> allocatedCPUs (release (UID a) (update a t n)) =
         withPolicy (CPUExclusivePolicy a) (CPUSet a) (allocatedCPUs n)
     \<and> dom (allocatedResources (release (UID a) (update a t n))) =
         dom (allocatedResources n) \<union> Node ` set (NUMANodeResources a)
     \<and> (\<forall>node res. allocatedResources n node = Some res \<longrightarrow>
           (\<exists>res'. allocatedResources (release (UID a) (update a t n)) node = Some res' \<and>
                   Node res' = Node res))
     \<and> (\<forall>node. resOf (allocatedResources (release (UID a) (update a t n))) node =
                 residueAt (NUMANodeResources a) (allocatedResources n) node)
     \<and> (\<forall>node key. quantityAt (allocatedResources (release (UID a) (update a t n))) node key =
                     quantityAt (allocatedResources n) node key)"
proof -
  let ?xs = "ToSliceNoSort (CPUSet a)"
  let ?rs = "NUMANodeResources a"
  have upd: "update a t n = addPodAllocation a t n"
    using new by (simp add: update_def release_def)
  have s: "release (UID a) (update a t n) =
      n\<lparr>allocatedPods := allocatedPods n,
        allocatedCPUs := releaseCPURefs ?xs
           (addCPURefs t (CPUExclusivePolicy a) ?xs (allocatedCPUs n)),
        allocatedResources := releaseNUMAResources ?rs
           (addNUMAResources 0 ?rs (allocatedResources n))\<rparr>"
    using new by (simp add: upd addPodAllocation_def release_def fun_upd_idem)
  have nz: "\<forall>c info. allocatedCPUs n c = Some info \<longrightarrow> RefCount info \<noteq> 0"
    using ok by (fastforce simp: ledgerOK_def)
  have cpus: "releaseCPURefs ?xs (addCPURefs t (CPUExclusivePolicy a) ?xs (allocatedCPUs n)) =
      withPolicy (CPUExclusivePolicy a) (CPUSet a) (allocatedCPUs n)"
    using release_add_CPUs [OF ToSliceNoSort_distinct nz t, of "CPUSet a" "CPUExclusivePolicy a"]
      fin by (simp add: ToSliceNoSort_set)
  have nn: "\<forall>node. nonNegative (resOf (allocatedResources n) node)"
    using ok by (simp add: ledgerOK_def nonNegative_resOf)
  have rs: "\<forall>res\<in>set ?rs. nonNegative (Resources res)"
    using a by (simp add: podOK_def)
  show ?thesis
    using cpus release_add_NUMA_quantity [OF nn rs] release_add_NUMA_kept
      release_add_NUMA_resOf [OF nn rs] release_add_NUMA_dom
    by (simp add: s)
qed

lemma ledgerOK_podB: "ledgerOK (update podB topology4 (NewNodeAllocation ''node''))"
proof -
  have "ledgerOK (addPodAllocation podB topology4 (NewNodeAllocation ''node''))"
    by (rule ledgerOK_add)
       (auto simp: ledgerOK_New podOK_def podB_def nonNegative_def topologyNonNegative_def
          topology4_def cpuInfoOf_def split: if_splits)
  then show ?thesis by (simp add: update_def release_def NewNodeAllocation_def)
qed

theorem update_then_release_witness:
  "ledgerOK (update podB topology4 (NewNodeAllocation ''node'')) \<and> podOK podC \<and>
   allocatedPods (update podB topology4 (NewNodeAllocation ''node'')) (UID podC) = None \<and>
   finite (CPUSet podC) \<and> topologyUnreferenced topology4 \<and>
   allocatedPods (release (UID podC)
       (update podC topology4 (update podB topology4 (NewNodeAllocation ''node'')))) =
     allocatedPods (update podB topology4 (NewNodeAllocation ''node'')) \<and>
   dom (allocatedResources (release (UID podC)
       (update podC topology4 (update podB topology4 (NewNodeAllocation ''node''))))) = {0, 1} \<and>
   resOf (allocatedResources (release (UID podC)
       (update podC topology4 (update podB topology4 (NewNodeAllocation ''node''))))) 1 =
     [''memory'' \<mapsto> 0] \<and>
   resOf (allocatedResources (release (UID podC)
       (update podC topology4 (update podB topology4 (NewNodeAllocation ''node''))))) 0 =
     [''cpu'' \<mapsto> 2000, ''memory'' \<mapsto> 0]"
proof -
  let ?S = "update podB topology4 (NewNodeAllocation ''node'')"
  have new: "allocatedPods ?S (UID podC) = None"
    by (simp add: update_def release_def addPodAllocation_def NewNodeAllocation_def
        podC_def podB_def)
  have fin: "finite (CPUSet podC)" by (simp add: podC_def)
  have okC: "podOK podC" by (simp add: podOK_def podC_def nonNegative_def)
  have S0: "allocatedResources ?S 0 = Some \<lparr>Node = 0, Resources = [''cpu'' \<mapsto> 2000]\<rparr>"
    by (simp add: update_def release_def addPodAllocation_def NewNodeAllocation_def podB_def
        Add_def fun_eq_iff)
  have S1: "allocatedResources ?S 1 = None"
    by (simp add: update_def release_def addPodAllocation_def NewNodeAllocation_def podB_def)
  have d: "dom (allocatedResources ?S) = {0}"
    by (auto simp: update_def release_def addPodAllocation_def NewNodeAllocation_def podB_def
        Let_def split: if_splits)
  have b0: "broughtIn (NUMANodeResources podC) 0 = {''cpu'', ''memory''}"
    by (auto simp: broughtIn_def podC_def split: if_splits)
  have b1: "broughtIn (NUMANodeResources podC) 1 = {''memory''}"
    by (auto simp: broughtIn_def podC_def split: if_splits)
  have nodes: "Node ` set (NUMANodeResources podC) = {0, 1}"
    by (auto simp: podC_def)
  have r1: "residueAt (NUMANodeResources podC) (allocatedResources ?S) 1 = [''memory'' \<mapsto> 0]"
    unfolding residueAt_def b1 by (simp add: S1 resOf_def fun_eq_iff)
  have r0: "residueAt (NUMANodeResources podC) (allocatedResources ?S) 0 =
      [''cpu'' \<mapsto> 2000, ''memory'' \<mapsto> 0]"
    unfolding residueAt_def b0 by (simp add: S0 resOf_def fun_eq_iff)
  show ?thesis
    using update_then_release [OF ledgerOK_podB okC new fin topology4_unreferenced]
      ledgerOK_podB okC new fin topology4_unreferenced r0 r1 d nodes
    by (simp add: insert_commute)
qed

text \<open>
  The claim as stated fails: the release leaves a record with quantity zero for what
  the allocation brought in; the release of a pod that was recorded before the update
  removes it; and a CPU shared with another pod keeps the exclusive policy of the
  released allocation.
\<close>

theorem update_then_release_counterexample:
  "release (UID podA) (update podA topology4 (NewNodeAllocation ''node'')) \<noteq>
     NewNodeAllocation ''node''
   \<and> release (UID podA2) (update podA2 topology4 (update podA topology4 (NewNodeAllocation ''node''))) \<noteq>
     update podA topology4 (NewNodeAllocation ''node'')
   \<and> release (UID podA) (update podA topology4 (update podB topology4 (NewNodeAllocation ''node''))) \<noteq>
     update podB topology4 (NewNodeAllocation ''node'')"
proof -
  have a1: "allocatedResources (release (UID podA) (update podA topology4 (NewNodeAllocation ''node''))) 0
      = Some \<lparr>Node = 0, Resources = [''cpu'' \<mapsto> 0]\<rparr>"
    by (simp add: update_def release_def addPodAllocation_def NewNodeAllocation_def podA_def
        Add_def SubtractWithNonNegativeResult_def fun_eq_iff)
  have b1: "allocatedResources (NewNodeAllocation ''node'') 0 = None"
    by (simp add: NewNodeAllocation_def)
  have a2: "allocatedPods (release (UID podA2)
      (update podA2 topology4 (update podA topology4 (NewNodeAllocation ''node'')))) ''a'' = None"
    by (simp add: podA2_def release_absent)
  have b2: "allocatedPods (update podA topology4 (NewNodeAllocation ''node'')) ''a'' = Some podA"
    by (simp add: update_def release_def addPodAllocation_def NewNodeAllocation_def podA_def)
  have a3: "map_option ExclusivePolicy (allocatedCPUs (release (UID podA)
      (update podA topology4 (update podB topology4 (NewNodeAllocation ''node'')))) 1)
      = Some ''PCPULevel''"
    by (simp add: update_def release_def addPodAllocation_def NewNodeAllocation_def
        podA_def podB_def ToSliceNoSort_01 ToSliceNoSort_12 topology4_def cpuInfoOf_def
        lookupCPUInfo_def)
  have b3: "map_option ExclusivePolicy
      (allocatedCPUs (update podB topology4 (NewNodeAllocation ''node'')) 1)
      = Some ''NUMANodeLevel''"
    by (simp add: update_def release_def addPodAllocation_def NewNodeAllocation_def
        podB_def ToSliceNoSort_12 topology4_def cpuInfoOf_def lookupCPUInfo_def)
  have c1: "release (UID podA) (update podA topology4 (NewNodeAllocation ''node'')) \<noteq>
      NewNodeAllocation ''node''"
    using a1 b1 by auto
  have c2: "release (UID podA2)
        (update podA2 topology4 (update podA topology4 (NewNodeAllocation ''node''))) \<noteq>
      update podA topology4 (NewNodeAllocation ''node'')"
    using a2 b2 by auto
  have c3: "release (UID podA)
        (update podA topology4 (update podB topology4 (NewNodeAllocation ''node''))) \<noteq>
      update podB topology4 (NewNodeAllocation ''node'')"
    using a3 b3 by auto
  show ?thesis using c1 c2 c3 by simp
qed

section \<open>Available NUMA resources\<close>






lemma resourceManager_getAvailable_fst:
  "fst (resourceManager_getAvailableNUMANodeResources c name topologyOpts reusable) =
     getAvailableNUMANodeResources_reusable (ledgerOf c name) topologyOpts reusable"
  by (simp add: resourceManager_getAvailableNUMANodeResources_def ledgerOf_def
      split: prod.splits)

text \<open>
  Without reusable resources, the method of two parameters is the method of
  node_allocation.go.
\<close>

lemma availableReusableLoop_empty:
  "availableReusableLoop rs allocatedRs Map.empty st = availableNUMALoop rs allocatedRs st"
proof (induction rs arbitrary: st)
  case Nil
  then show ?case by (cases st) simp
next
  case (Cons x rs)
  have "Add a Map.empty = a" for a :: ResourceList
    by (rule ext) (simp add: Add_def split: option.splits)
  then show ?case by (cases st) (simp add: Let_def Cons.IH resourcesAt_def)
qed

lemma getAvailableNUMANodeResources_reusable_empty:
  "getAvailableNUMANodeResources_reusable n topologyOpts Map.empty =
     getAvailableNUMANodeResources n topologyOpts"
  by (simp add: getAvailableNUMANodeResources_reusable_def getAvailableNUMANodeResources_def
      availableReusableLoop_empty)

lemma Subtract_Add_at:
  "SubtractWithNonNegativeResult (Add capacity reusable) allocated key =
     (if key \<in> dom capacity \<union> dom reusable
      then Some (max 0 (valOf capacity key - valOf allocated key + valOf reusable key))
      else if key \<in> dom allocated then Some 0 else None)"
  by (auto simp: SubtractWithNonNegativeResult_def Add_def valOf_def Let_def max_def domIff
      split: option.splits)


lemma options0_simps:
  "TopologyOptions.NUMANodeResources options0 = [\<lparr>Node = 0, Resources = [''cpu'' \<mapsto> 4000]\<rparr>]"
  by (simp add: options0_def manager0_def)

lemma isValid4: "IsValid topology4"
  by (simp add: topology4_def)

lemma Update_manager0_podA:
  "nodeAllocations (Update manager0 ''node'' podA) ''node'' =
     Some (update podA topology4 (NewNodeAllocation ''node''))"
  by (simp add: Update_def manager0_def getOrCreateNodeAllocation_def Let_def isValid4)

lemma ledgerOf_Update_podA:
  "ledgerOf (Update manager0 ''node'' podA) ''node'' =
     update podA topology4 (NewNodeAllocation ''node'')"
  by (simp add: ledgerOf_def getOrCreateNodeAllocation_def Update_manager0_podA)

lemma allocated_podA:
  "resOf (allocatedResources (update podA topology4 (NewNodeAllocation ''node''))) 0 =
     [''cpu'' \<mapsto> 2000]"
  by (simp add: update_def release_def addPodAllocation_def NewNodeAllocation_def podA_def
      resOf_def Add_def fun_eq_iff)


section \<open>Allocate changes no node allocation\<close>

lemma sameAllocations_refl: "sameAllocations c c"
  by (simp add: sameAllocations_def)

lemma sameAllocations_trans:
  "sameAllocations c c' \<Longrightarrow> sameAllocations c' c'' \<Longrightarrow> sameAllocations c c''"
  by (simp add: sameAllocations_def)

lemma sameAllocations_getOrCreate:
  "sameAllocations c (snd (getOrCreateNodeAllocation c name))"
  by (auto simp: sameAllocations_def getOrCreateNodeAllocation_def ledgerOf_def Let_def
      split: option.splits)

lemma sameAllocations_getAvailableNUMA:
  "sameAllocations c
     (snd (resourceManager_getAvailableNUMANodeResources c name topologyOpts reusable))"
  using sameAllocations_getOrCreate [of c name]
  by (auto simp: resourceManager_getAvailableNUMANodeResources_def split: prod.splits)

lemma sameAllocations_GetAvailableCPUs:
  "sameAllocations c (snd (GetAvailableCPUs c name preferred))"
  using sameAllocations_getOrCreate [of c name]
  by (auto simp: GetAvailableCPUs_def Let_def sameAllocations_refl
      split: option.splits prod.splits)

lemma sameAllocations_GetAllocatedCPUSet:
  "sameAllocations c (snd (GetAllocatedCPUSet c name podUID))"
  using sameAllocations_getOrCreate [of c name]
  by (auto simp: GetAllocatedCPUSet_def split: prod.splits)

lemma sameAllocations_GetTopologyHints:
  "sameAllocations c (snd (GetTopologyHints c node pod options))"
  using sameAllocations_getAvailableNUMA
    [of c "corev1_Node.Name node" "topologyOptions options" "reusableResources options"]
  by (auto simp: GetTopologyHints_def Let_def sameAllocations_refl split: prod.splits)

lemma sameAllocations_allocateResourcesByHint:
  "sameAllocations c (snd (allocateResourcesByHint c node pod options))"
  using sameAllocations_getAvailableNUMA
    [of c "corev1_Node.Name node" "topologyOptions options" "reusableResources options"]
  by (auto simp: allocateResourcesByHint_def Let_def sameAllocations_refl
      split: prod.splits option.splits)

lemma sameAllocations_allocateCPUSet:
  "sameAllocations c
     (snd (allocateCPUSet takePreferredCPUs labelKey c node pod allocatedNUMANodes options))"
  using sameAllocations_GetAvailableCPUs [of c "corev1_Node.Name node" "preferredCPUs options"]
  by (auto simp: allocateCPUSet_def split: prod.splits sum.splits)

lemma snd_Allocate:
  "snd (Allocate takePreferredCPUs labelKey c node pod options) =
     (let r = (if NUMANodeAffinity (hint options) \<noteq> None
               then allocateResourcesByHint c node pod options
               else (Inr [], c))
      in case fst r of
           Inl err \<Rightarrow> snd r
         | Inr resources \<Rightarrow>
             if requestCPUBind options
             then snd (allocateCPUSet takePreferredCPUs labelKey (snd r) node pod resources options)
             else snd r)"
  by (simp add: Allocate_def Let_def split: prod.splits sum.splits)

lemma sameAllocations_Allocate:
  "sameAllocations c (snd (Allocate takePreferredCPUs labelKey c node pod options))"
proof -
  define r where "r = (if NUMANodeAffinity (hint options) \<noteq> None
               then allocateResourcesByHint c node pod options
               else (Inr [], c))"
  have 1: "sameAllocations c (snd r)"
    by (simp add: r_def sameAllocations_allocateResourcesByHint sameAllocations_refl)
  have 2: "sameAllocations c
      (snd (allocateCPUSet takePreferredCPUs labelKey (snd r) node pod rs options))" for rs
    using 1 sameAllocations_allocateCPUSet by (rule sameAllocations_trans)
  have "snd (Allocate takePreferredCPUs labelKey c node pod options) =
     (case fst r of
           Inl err \<Rightarrow> snd r
         | Inr resources \<Rightarrow>
             if requestCPUBind options
             then snd (allocateCPUSet takePreferredCPUs labelKey (snd r) node pod resources options)
             else snd r)"
    unfolding r_def snd_Allocate Let_def ..
  then show ?thesis using 1 2 by (simp split: sum.splits)
qed

text \<open>
  Claim C2.  \<open>Allocate\<close> leaves the allocation of every node as it was, whether it
  returns a pod allocation or an error, whatever the CPU selector does with its
  arguments: the manager after the call holds for every node the allocation it held
  before, and a node without one reads as the fresh, empty allocation before and after.
\<close>

theorem Allocate_changes_no_allocation:
  "ledgerOf (snd (Allocate takePreferredCPUs labelKey c node pod options)) name = ledgerOf c name
   \<and> (nodeAllocations c name = None \<or>
      nodeAllocations (snd (Allocate takePreferredCPUs labelKey c node pod options)) name =
        nodeAllocations c name)"
  using sameAllocations_Allocate [of c takePreferredCPUs labelKey node pod options]
  by (cases "nodeAllocations c name") (auto simp: sameAllocations_def)

theorem Allocate_changes_no_allocation_witness:
  "ledgerOf (snd (Allocate takeNothing ''label'' (Update manager0 ''node'' podA)
      node0 pod0 request0)) ''node'' =
   update podA topology4 (NewNodeAllocation ''node'')"
  using Allocate_changes_no_allocation [of takeNothing "''label''"
      "Update manager0 ''node'' podA" node0 pod0 request0 "''node''"]
  by (simp add: ledgerOf_Update_podA)

section \<open>Allocation of NUMA resources by hint\<close>

lemma allocateRes_remaining: "fst (snd (allocateRes a q)) = max 0 (q - a)"
  by (simp add: allocateRes_def max_def)

lemma allocateOnCell_requests:
  "fst (snd (allocateOnCell av reqs seen)) r =
     (case reqs r of
        None \<Rightarrow> None
      | Some q \<Rightarrow> (case av r of None \<Rightarrow> Some q | Some a \<Rightarrow> Some (max 0 (q - a))))"
  by (simp add: allocateOnCell_def allocateRes_remaining split: option.splits)

lemma allocateOnCell_inter:
  "fst (snd (snd (allocateOnCell av reqs seen))) =
     seen \<union> {r. reqs r \<noteq> None \<and> av r \<noteq> None}"
  by (simp add: allocateOnCell_def)

lemma availableIn_nonneg:
  "\<forall>n\<in>set cells. nonNegative (resourcesAt tot n) \<Longrightarrow> 0 \<le> availableIn tot cells r"
  unfolding availableIn_def
  by (induction cells) (auto simp: nonNegative_valOf intro: add_nonneg_nonneg)

lemma not_offered_zero: "\<not> offered tot cells r \<Longrightarrow> availableIn tot cells r = 0"
  unfolding availableIn_def offered_def
  by (induction cells) (auto simp: valOf_def)

lemma resourcesAt_upd_other:
  "k \<noteq> n \<Longrightarrow> resourcesAt (tot(n \<mapsto> x)) k = resourcesAt tot k"
  by (simp add: resourcesAt_def)

lemma offered_upd:
  "n \<notin> set cells \<Longrightarrow> offered (tot(n \<mapsto> x)) cells r = offered tot cells r"
  by (auto simp: offered_def resourcesAt_def)

lemma availableIn_upd:
  "n \<notin> set cells \<Longrightarrow> availableIn (tot(n \<mapsto> x)) cells r = availableIn tot cells r"
  unfolding availableIn_def
  by (induction cells) (auto simp: resourcesAt_def)

text \<open>The reason the loop leaves for a resource, in terms of what the cells offer.\<close>

lemma allocateByBits_reason:
  assumes "distinct bits" and "\<forall>n\<in>set bits. nonNegative (resourcesAt tot n)"
      and "allocateByBits bits tot reqs seen res = (reqs', seen', res')"
  shows "(\<exists>q'. reqs' r = Some q' \<and> r \<in> seen' \<and> q' \<noteq> 0) \<longleftrightarrow>
         (\<exists>q. reqs r = Some q \<and>
              (if offered tot bits r then availableIn tot bits r < q
               else r \<in> seen \<and> q \<noteq> 0))"
  using assms
proof (induction bits arbitrary: tot reqs seen res)
  case Nil
  then show ?case by (auto simp: offered_def)
next
  case (Cons n rest)
  let ?av = "resourcesAt tot n"
  obtain av1 reqs1 seen1 taken where cell:
    "allocateOnCell ?av reqs seen = (av1, reqs1, seen1, taken)"
    by (cases "allocateOnCell ?av reqs seen") auto
  have reqs1: "reqs1 r =
     (case reqs r of
        None \<Rightarrow> None
      | Some q \<Rightarrow> (case ?av r of None \<Rightarrow> Some q | Some a \<Rightarrow> Some (max 0 (q - a))))" for r
    using allocateOnCell_requests [of ?av reqs seen r] cell by simp
  have seen1: "seen1 = seen \<union> {r. reqs r \<noteq> None \<and> ?av r \<noteq> None}"
    using allocateOnCell_inter [of ?av reqs seen] cell by simp
  have nn: "nonNegative ?av" and nnrest: "\<forall>k\<in>set rest. nonNegative (resourcesAt tot k)"
    using Cons.prems(2) by auto
  have S0: "0 \<le> availableIn tot rest r" by (rule availableIn_nonneg [OF nnrest])
  have off: "offered tot (n # rest) r \<longleftrightarrow> ?av r \<noteq> None \<or> offered tot rest r"
    by (auto simp: offered_def)
  have sum: "availableIn tot (n # rest) r = valOf ?av r + availableIn tot rest r"
    by (simp add: availableIn_def)
  show ?case
  proof (cases "IsZero reqs1")
    case True
    then have out: "reqs' = reqs1" "seen' = seen1"
      using Cons.prems(3) cell by (simp_all add: Let_def)
    have zero: "reqs1 r = Some q' \<Longrightarrow> q' = 0" for q'
      using True by (auto simp: IsZero_def)
    have lhs: "\<not> (\<exists>q'. reqs' r = Some q' \<and> r \<in> seen' \<and> q' \<noteq> 0)"
      using zero out by auto
    have rhs: "\<not> (\<exists>q. reqs r = Some q \<and>
              (if offered tot (n # rest) r then availableIn tot (n # rest) r < q
               else r \<in> seen \<and> q \<noteq> 0))"
    proof
      assume "\<exists>q. reqs r = Some q \<and>
              (if offered tot (n # rest) r then availableIn tot (n # rest) r < q
               else r \<in> seen \<and> q \<noteq> 0)"
      then obtain q where q: "reqs r = Some q"
        and c: "if offered tot (n # rest) r then availableIn tot (n # rest) r < q
               else r \<in> seen \<and> q \<noteq> 0" by blast
      show False
      proof (cases "?av r")
        case None
        then have "reqs1 r = Some q" using q by (simp add: reqs1)
        then have q0: "q = 0" by (rule zero)
        have "valOf ?av r = 0" using None by (simp add: valOf_def)
        then show False using c q0 S0 sum by (auto split: if_splits)
      next
        case (Some a)
        then have "reqs1 r = Some (max 0 (q - a))" using q by (simp add: reqs1)
        then have "max 0 (q - a) = 0" by (rule zero)
        then have "q \<le> a" by simp
        moreover have "valOf ?av r = a" using Some by (simp add: valOf_def)
        moreover have "offered tot (n # rest) r" using Some off by simp
        ultimately show False using c S0 sum by simp
      qed
    qed
    show ?thesis using lhs rhs by blast
  next
    case False
    let ?tot1 = "if tot n = None then tot else tot(n \<mapsto> av1)"
    have rec: "allocateByBits rest ?tot1 reqs1 seen1
        (if \<not> IsZero taken then res @ [\<lparr>Node = n, Resources = taken\<rparr>] else res) =
        (reqs', seen', res')"
      using Cons.prems(3) cell False by (simp add: Let_def)
    have nrest: "n \<notin> set rest" and drest: "distinct rest" using Cons.prems(1) by auto
    have same: "resourcesAt ?tot1 k = resourcesAt tot k" if "k \<in> set rest" for k
      using that nrest by (auto simp: resourcesAt_def)
    have nn1: "\<forall>k\<in>set rest. nonNegative (resourcesAt ?tot1 k)"
      using nnrest same by simp
    have off1: "offered ?tot1 rest r = offered tot rest r"
      using nrest by (simp add: offered_upd)
    have sum1: "availableIn ?tot1 rest r = availableIn tot rest r"
      using nrest by (simp add: availableIn_upd)
    have IH: "(\<exists>q'. reqs' r = Some q' \<and> r \<in> seen' \<and> q' \<noteq> 0) \<longleftrightarrow>
         (\<exists>q. reqs1 r = Some q \<and>
              (if offered tot rest r then availableIn tot rest r < q
               else r \<in> seen1 \<and> q \<noteq> 0))"
      using Cons.IH [OF drest nn1 rec] by (simp only: off1 sum1)
    show ?thesis
    proof (cases "reqs r")
      case None
      then show ?thesis using IH by (simp add: reqs1)
    next
      case (Some q)
      show ?thesis
      proof (cases "?av r")
        case None
        have v: "valOf ?av r = 0" using None by (simp add: valOf_def)
        have r1: "reqs1 r = Some q" using Some None by (simp add: reqs1)
        have i1: "r \<in> seen1 \<longleftrightarrow> r \<in> seen" using None by (simp add: seen1)
        show ?thesis using IH Some None r1 i1 v off sum by simp
      next
        case (Some a)
        have a0: "0 \<le> a" using nn Some by (auto simp: nonNegative_def)
        have v: "valOf ?av r = a" using Some by (simp add: valOf_def)
        have r1: "reqs1 r = Some (max 0 (q - a))"
          using \<open>reqs r = Some q\<close> Some by (simp add: reqs1)
        have i1: "r \<in> seen1" using \<open>reqs r = Some q\<close> Some by (simp add: seen1)
        have offT: "offered tot (n # rest) r" using Some off by simp
        show ?thesis
        proof (cases "offered tot rest r")
          case True
          then show ?thesis
            using IH \<open>reqs r = Some q\<close> r1 offT sum v S0 a0 by (auto simp: max_def)
        next
          case False
          then have "availableIn tot rest r = 0" by (rule not_offered_zero)
          then show ?thesis
            using IH \<open>reqs r = Some q\<close> r1 i1 offT sum v False a0 by (auto simp: max_def)
        qed
      qed
    qed
  qed
qed

lemma GetBits_distinct: "distinct (GetBits m)"
  by (simp add: GetBits_def distinct_map inj_on_def)

lemma availableReusableLoop_nonNegative:
  "\<forall>k. nonNegative (resourcesAt av k) \<Longrightarrow>
   nonNegative (resourcesAt (fst (availableReusableLoop rs allocatedRs reusable (av, al))) k)"
proof (induction rs arbitrary: av al)
  case Nil
  then show ?case by simp
next
  case (Cons x rs)
  show ?case
    unfolding availableReusableLoop.simps Let_def
    by (rule Cons.IH) (use Cons.prems in \<open>simp add: resourcesAt_def nonNegative_Subtract\<close>)
qed

lemma resourceManager_getAvailable_nonNegative:
  "nonNegative (resourcesAt
     (fst (fst (resourceManager_getAvailableNUMANodeResources c name topologyOpts reusable))) k)"
  unfolding resourceManager_getAvailable_fst getAvailableNUMANodeResources_reusable_def
  by (rule availableReusableLoop_nonNegative) (simp add: resourcesAt_def nonNegative_empty)

lemma insufficient_empty: "insufficient Map.empty cells reqs = {}"
  by (simp add: insufficient_def offered_def resourcesAt_def)

lemma allocateResourcesByHint_fst:
  assumes "TopologyOptions.NUMANodeResources (topologyOptions options) \<noteq> []"
      and "NUMANodeAffinity (hint options) = Some affinity"
  shows "fst (allocateResourcesByHint c node pod options) =
     (let l = allocateByBits (GetBits affinity)
                (fst (fst (resourceManager_getAvailableNUMANodeResources c
                             (corev1_Node.Name node) (topologyOptions options)
                             (reusableResources options))))
                (requested options) {} [];
          reasons = {r. \<exists>q. fst l r = Some q \<and> r \<in> fst (snd l) \<and> q \<noteq> 0}
      in if reasons \<noteq> {} then Inl (Unschedulable reasons) else Inr (snd (snd l)))"
  using assms
  by (cases "requestCPUBind options")
     (simp_all add: allocateResourcesByHint_def Let_def case_prod_beta requested_def)

text \<open>
  Claim C4.  On a hint with an affinity, \<open>allocateResourcesByHint\<close> returns the error
  with the reasons \<open>Insufficient NUMA r\<close> exactly when some requested resource is
  offered by a cell of the mask and the cells of the mask together have less of it than
  is requested, and the reasons name exactly those resources.  A resource that no cell
  of the mask has is not among them, whatever is requested of it.  What the cells have
  is the availability that the function obtains for the node, with its topology options
  and its reusable resources.
\<close>

theorem insufficient_NUMA_iff:
  assumes "NUMANodeAffinity (hint options) = Some affinity"
  shows "fst (allocateResourcesByHint c node pod options) = Inl (Unschedulable reasons) \<longleftrightarrow>
         reasons \<noteq> {} \<and>
         reasons = insufficient
           (fst (fst (resourceManager_getAvailableNUMANodeResources c (corev1_Node.Name node)
                        (topologyOptions options) (reusableResources options))))
           (GetBits affinity) (requested options)"
proof (cases "TopologyOptions.NUMANodeResources (topologyOptions options) = []")
  case True
  then have "fst (allocateResourcesByHint c node pod options) = Inl InsufficientNUMANode"
    by (simp add: allocateResourcesByHint_def)
  moreover have "fst (fst (resourceManager_getAvailableNUMANodeResources c
                        (corev1_Node.Name node) (topologyOptions options)
                        (reusableResources options))) = Map.empty"
    using True
    by (simp add: resourceManager_getAvailable_fst getAvailableNUMANodeResources_reusable_def)
  ultimately show ?thesis by (auto simp: insufficient_empty)
next
  case False
  let ?tot = "fst (fst (resourceManager_getAvailableNUMANodeResources c
                        (corev1_Node.Name node) (topologyOptions options)
                        (reusableResources options)))"
  let ?l = "allocateByBits (GetBits affinity) ?tot (requested options) {} []"
  have loop: "?l = (fst ?l, fst (snd ?l), snd (snd ?l))" by simp
  have nn: "\<forall>n\<in>set (GetBits affinity). nonNegative (resourcesAt ?tot n)"
    by (simp add: resourceManager_getAvailable_nonNegative)
  have reason: "(\<exists>q'. fst ?l r = Some q' \<and> r \<in> fst (snd ?l) \<and> q' \<noteq> 0) \<longleftrightarrow>
      r \<in> insufficient ?tot (GetBits affinity) (requested options)" for r
    using allocateByBits_reason [OF GetBits_distinct nn loop, of r]
    by (auto simp: insufficient_def)
  have set: "{r. \<exists>q. fst ?l r = Some q \<and> r \<in> fst (snd ?l) \<and> q \<noteq> 0} =
      insufficient ?tot (GetBits affinity) (requested options)"
    using reason by blast
  have "fst (allocateResourcesByHint c node pod options) =
      (if insufficient ?tot (GetBits affinity) (requested options) \<noteq> {}
       then Inl (Unschedulable (insufficient ?tot (GetBits affinity) (requested options)))
       else Inr (snd (snd ?l)))"
    unfolding allocateResourcesByHint_fst [OF False assms] Let_def set ..
  then show ?thesis by auto
qed

lemma filter_eq_0: "0 < k \<Longrightarrow> filter (\<lambda>n. n = (0::nat)) [0..<k] = [0]"
proof (induction k)
  case 0
  then show ?case by simp
next
  case (Suc k)
  then show ?case by (cases "k = 0") auto
qed

lemma GetBits_1: "GetBits 1 = [0]"
proof -
  have "filter (bit (1::64 word)) [0..<64] = filter (\<lambda>n. n = 0) [0..<64]"
    by (rule filter_cong) (auto simp: bit_1_iff)
  then show ?thesis by (simp add: GetBits_def filter_eq_0)
qed

lemma available_manager0:
  "resourcesAt (fst (fst (resourceManager_getAvailableNUMANodeResources manager0 ''node''
      options0 Map.empty))) 0 = [''cpu'' \<mapsto> 4000]"
  by (rule ext)
     (simp add: resourceManager_getAvailable_fst getAvailableNUMANodeResources_reusable_def
      options0_simps ledgerOf_def getOrCreateNodeAllocation_def manager0_def
      NewNodeAllocation_def Let_def resourcesAt_def SubtractWithNonNegativeResult_def Add_def)

text \<open>
  With 2000 of the 4000 CPU of cell 0 allocated and 1000 reusable, the cell has 3000.
\<close>

lemma available_reusable:
  "resourcesAt (fst (fst (resourceManager_getAvailableNUMANodeResources
      (Update manager0 ''node'' podA) ''node'' options0 [0 \<mapsto> [''cpu'' \<mapsto> 1000]]))) 0 =
     [''cpu'' \<mapsto> 3000]"
  by (rule ext)
     (simp add: resourceManager_getAvailable_fst getAvailableNUMANodeResources_reusable_def
      options0_simps ledgerOf_Update_podA Let_def resourcesAt_def Subtract_Add_at
      allocated_podA [unfolded resOf_def] valOf_def domIff)

lemma insufficient_request3:
  "insufficient (fst (fst (resourceManager_getAvailableNUMANodeResources
      (Update manager0 ''node'' podA) ''node'' options0 [0 \<mapsto> [''cpu'' \<mapsto> 1000]])))
     [0] (requested request3) = {''cpu''}"
  by (auto simp: insufficient_def offered_def availableIn_def available_reusable valOf_def
      requested_def request3_def split: if_splits)

theorem insufficient_NUMA_iff_witness:
  "NUMANodeAffinity (hint request3) = Some 1 \<and>
   fst (allocateResourcesByHint (Update manager0 ''node'' podA) node0 pod0 request3) =
     Inl (Unschedulable {''cpu''})"
proof -
  have h: "NUMANodeAffinity (hint request3) = Some 1" by (simp add: request3_def)
  have t: "topologyOptions request3 = options0" by (simp add: request3_def)
  have u: "reusableResources request3 = [0 \<mapsto> [''cpu'' \<mapsto> 1000]]" by (simp add: request3_def)
  have n: "corev1_Node.Name node0 = ''node''" by (simp add: node0_def)
  show ?thesis
    using insufficient_NUMA_iff [OF h, of "Update manager0 ''node'' podA" node0 pod0 "{''cpu''}"] h
    by (simp add: t u n GetBits_1 insufficient_request3)
qed

section \<open>Generation of topology hints\<close>

lemma bit_OR_one:
  "bit ((m0::64 word) OR push_bit n 1) k \<longleftrightarrow> bit m0 k \<or> (k < 64 \<and> k = n)"
  by (auto simp: bit_or_iff bit_exp_iff possible_bit_word)

lemma bit_foldl_OR:
  "bit (foldl (\<lambda>(m::64 word) i. m OR push_bit (nat i) 1) m0 ys) k \<longleftrightarrow>
     bit m0 k \<or> (k < 64 \<and> k \<in> nat ` set ys)"
proof (induction ys arbitrary: m0)
  case Nil
  then show ?case by simp
next
  case (Cons y ys)
  have "bit (foldl (\<lambda>(m::64 word) i. m OR push_bit (nat i) 1) m0 (y # ys)) k \<longleftrightarrow>
      bit (m0 OR push_bit (nat y) 1) k \<or> (k < 64 \<and> k \<in> nat ` set ys)"
    unfolding foldl.simps by (rule Cons.IH)
  also have "\<dots> \<longleftrightarrow> bit m0 k \<or> (k < 64 \<and> k \<in> nat ` set (y # ys))"
    unfolding bit_OR_one by auto
  finally show ?case .
qed

lemma bit_NewBitMask: "bit (NewBitMask ys) k \<longleftrightarrow> k < 64 \<and> k \<in> nat ` set ys"
  using bit_foldl_OR [of 0 ys k] by (simp add: NewBitMask_def)

lemma set_GetBits: "set (GetBits m) = int ` {k. bit m k}"
proof -
  have "bit m k \<Longrightarrow> k < 64" for k
    using bit_imp_le_length [of m k] by simp
  then show ?thesis by (auto simp: GetBits_def)
qed

lemma length_GetBits: "length (GetBits m) = card {k. bit m k}"
proof -
  have "bit m k \<Longrightarrow> k < 64" for k
    using bit_imp_le_length [of m k] by simp
  then have "set (filter (bit m) [0..<64]) = {k. bit m k}" by auto
  moreover have "distinct (filter (bit m) [0..<64])" by simp
  ultimately have "card {k. bit m k} = length (filter (bit m) [0..<64])"
    using distinct_card by metis
  then show ?thesis by (simp add: GetBits_def)
qed

lemma Count_NewBitMask_le: "Count (NewBitMask ys) \<le> int (length ys)"
proof -
  have "{k. bit (NewBitMask ys) k} \<subseteq> nat ` set ys"
    by (auto simp: bit_NewBitMask)
  then have "card {k. bit (NewBitMask ys) k} \<le> card (nat ` set ys)"
    by (intro card_mono) auto
  also have "\<dots> \<le> card (set ys)" by (intro card_image_le) auto
  also have "\<dots> \<le> length ys" by (rule card_length)
  finally show ?thesis by (simp add: Count_def length_GetBits)
qed

lemma set_IterateBitMasks:
  "set (IterateBitMasks bits) = NewBitMask ` {ys. subseq ys bits \<and> ys \<noteq> []}"
proof -
  have "set (IterateBitMasks bits) =
      NewBitMask ` {ys. subseq ys bits \<and> length ys \<in> {1..<length bits + 1}}"
    by (auto simp: IterateBitMasks_def)
  moreover have "subseq ys bits \<Longrightarrow> length ys \<in> {1..<length bits + 1} \<longleftrightarrow> ys \<noteq> []" for ys
    using list_emb_length [of "(=)" ys bits] by (cases ys) auto
  ultimately show ?thesis by auto
qed

lemma in_IterateBitMasks:
  assumes range: "\<forall>n\<in>set bits. 0 \<le> n \<and> n < 64"
  shows "m \<in> set (IterateBitMasks bits) \<longleftrightarrow> m \<noteq> 0 \<and> set (GetBits m) \<subseteq> set bits"
proof
  assume "m \<in> set (IterateBitMasks bits)"
  then obtain ys where ys: "subseq ys bits" "ys \<noteq> []" and m: "m = NewBitMask ys"
    by (auto simp: set_IterateBitMasks)
  have sub: "set ys \<subseteq> set bits"
    using ys(1) by (auto elim: list_emb_set)
  obtain y where y: "y \<in> set ys" using ys(2) by (cases ys) auto
  then have "0 \<le> y \<and> y < 64" using sub range by auto
  then have "bit m (nat y)" using y by (auto simp: m bit_NewBitMask)
  then have "m \<noteq> 0" by auto
  moreover have "set (GetBits m) \<subseteq> set bits"
  proof
    fix n
    assume "n \<in> set (GetBits m)"
    then obtain k where k: "n = int k" "bit m k" by (auto simp: set_GetBits)
    then obtain z where z: "z \<in> set ys" "k = nat z" by (auto simp: m bit_NewBitMask)
    then have "0 \<le> z" using sub range by auto
    then show "n \<in> set bits" using k z sub by auto
  qed
  ultimately show "m \<noteq> 0 \<and> set (GetBits m) \<subseteq> set bits" by simp
next
  assume a: "m \<noteq> 0 \<and> set (GetBits m) \<subseteq> set bits"
  let ?ys = "filter (\<lambda>n. bit m (nat n)) bits"
  have inbits: "int k \<in> set bits" if "bit m k" for k
    using a that by (auto simp: set_GetBits)
  have lt: "k < 64" if "bit m k" for k
    using bit_imp_le_length [of m k] that by simp
  have "bit (NewBitMask ?ys) k \<longleftrightarrow> bit m k" for k
  proof
    assume "bit (NewBitMask ?ys) k"
    then show "bit m k" by (auto simp: bit_NewBitMask)
  next
    assume b: "bit m k"
    then have "int k \<in> set ?ys" using inbits by simp
    then have "k \<in> nat ` set ?ys" by force
    then show "bit (NewBitMask ?ys) k" using lt [OF b] by (simp add: bit_NewBitMask)
  qed
  then have eq: "NewBitMask ?ys = m" by (simp add: bit_eq_iff)
  obtain k where "bit m k" using a by (auto simp: bit_eq_iff)
  then have "int k \<in> set ?ys" using inbits by simp
  then have "?ys \<noteq> []" by (metis empty_iff empty_set)
  moreover have "subseq ?ys bits" by simp
  ultimately have "NewBitMask ?ys \<in> set (IterateBitMasks bits)"
    unfolding set_IterateBitMasks by blast
  then show "m \<in> set (IterateBitMasks bits)" by (simp add: eq)
qed

lemma Count_IterateBitMasks_le:
  "m \<in> set (IterateBitMasks bits) \<Longrightarrow> Count m \<le> int (length bits)"
proof -
  assume "m \<in> set (IterateBitMasks bits)"
  then obtain ys where ys: "subseq ys bits" and m: "m = NewBitMask ys"
    by (auto simp: set_IterateBitMasks)
  have "length ys \<le> length bits" using ys by (rule list_emb_length)
  then show ?thesis using Count_NewBitMask_le [of ys] m by simp
qed

lemma hintCallback_fst:
  "fst (hintCallback req tot m (mn, h)) =
     (if LessThanOrEqual req (maskAvailable tot m) \<and> Count m < mn then Count m else mn)"
  by (simp add: hintCallback_def Let_def)

lemma hintCallback_hintsFor:
  "hintsFor (snd (hintCallback req tot m (mn, h))) r =
     hintsFor h r @
     (if LessThanOrEqual req (maskAvailable tot m) \<and> req r \<noteq> None \<and>
         maskAvailable tot m r \<noteq> None
      then [\<lparr>NUMANodeAffinity = Some m, Preferred = False\<rparr>] else [])"
  by (auto simp: hintCallback_def Let_def hintsFor_def)

lemma foldl_hintsFor:
  "hintsFor (snd (foldl (\<lambda>st m. hintCallback req tot m st) st ms)) r =
     hintsFor (snd st) r @
     map (\<lambda>m. \<lparr>NUMANodeAffinity = Some m, Preferred = False\<rparr>)
       (filter (\<lambda>m. LessThanOrEqual req (maskAvailable tot m) \<and> req r \<noteq> None \<and>
                    maskAvailable tot m r \<noteq> None) ms)"
proof (induction ms arbitrary: st)
  case Nil
  then show ?case by simp
next
  case (Cons m ms)
  obtain mn h where st: "st = (mn, h)" by (cases st)
  show ?case
    unfolding foldl.simps Cons.IH st hintCallback_hintsFor by simp
qed

lemma foldl_min:
  "fst (foldl (\<lambda>st m. hintCallback req tot m st) st ms) \<le> fst st
   \<and> (\<forall>m\<in>set ms. LessThanOrEqual req (maskAvailable tot m) \<longrightarrow>
          fst (foldl (\<lambda>st m. hintCallback req tot m st) st ms) \<le> Count m)
   \<and> (fst (foldl (\<lambda>st m. hintCallback req tot m st) st ms) = fst st \<or>
      (\<exists>m\<in>set ms. LessThanOrEqual req (maskAvailable tot m) \<and>
          fst (foldl (\<lambda>st m. hintCallback req tot m st) st ms) = Count m))"
proof (induction ms arbitrary: st)
  case Nil
  then show ?case by simp
next
  case (Cons m ms)
  obtain mn h where st: "st = (mn, h)" by (cases st)
  let ?st1 = "hintCallback req tot m (mn, h)"
  have f: "fst ?st1 =
     (if LessThanOrEqual req (maskAvailable tot m) \<and> Count m < mn then Count m else mn)"
    by (rule hintCallback_fst)
  show ?case
    using Cons.IH [of ?st1] f unfolding foldl.simps st
    by (auto split: if_splits)
qed

lemma hintsFor_empty: "hintsFor Map.empty r = []"
  by (simp add: hintsFor_def)

lemma hintsFor_generateResourceHints:
  assumes "req r = Some q"
  shows "hintsFor (generateResourceHints nodes req tot) r =
     map (\<lambda>m. \<lparr>NUMANodeAffinity = Some m,
                Preferred = (Count m =
                  fst (foldl (\<lambda>st m. hintCallback req tot m st)
                         (int (length nodes), Map.empty) (IterateBitMasks nodes)))\<rparr>)
       (filter (\<lambda>m. LessThanOrEqual req (maskAvailable tot m) \<and> maskAvailable tot m r \<noteq> None)
          (IterateBitMasks nodes))"
proof -
  let ?st = "foldl (\<lambda>st m. hintCallback req tot m st)
               (int (length nodes), Map.empty) (IterateBitMasks nodes)"
  have "hintsFor (generateResourceHints nodes req tot) r =
      map (markPreferred (fst ?st)) (hintsFor (snd ?st) r)"
    using assms by (simp add: generateResourceHints_def Let_def hintsFor_def split: option.splits)
  also have "hintsFor (snd ?st) r =
      map (\<lambda>m. \<lparr>NUMANodeAffinity = Some m, Preferred = False\<rparr>)
       (filter (\<lambda>m. LessThanOrEqual req (maskAvailable tot m) \<and> maskAvailable tot m r \<noteq> None)
          (IterateBitMasks nodes))"
    using assms by (simp add: foldl_hintsFor hintsFor_empty)
  finally show ?thesis
    by (simp add: markPreferred_def Count_def comp_def)
qed

text \<open>A resource that is not requested has no hints.\<close>

lemma no_hint_unrequested:
  "podRequests r = None \<Longrightarrow> generateResourceHints numaNodes podRequests totalAvailable r = None"
proof -
  assume n: "podRequests r = None"
  have keep: "snd (foldl (\<lambda>st m. hintCallback podRequests totalAvailable m st) st ms) r = snd st r"
    for st ms
  proof (induction ms arbitrary: st)
    case Nil
    then show ?case by simp
  next
    case (Cons m ms)
    have "snd (hintCallback podRequests totalAvailable m st) r = snd st r"
      using n by (simp add: hintCallback_def Let_def)
    then show ?case by (simp add: Cons.IH)
  qed
  show ?thesis using n by (simp add: generateResourceHints_def Let_def keep)
qed

text \<open>
  The availability that the callback sums with \<open>quotav1.Add\<close> over the bits of a mask
  is the summed availability of the mask, and the comparison of \<open>quotav1\<close> is that the
  summed availability meets the request.
\<close>

lemma cellsOf_GetBits: "set (GetBits m) = cellsOf m"
  by (simp add: set_GetBits cellsOf_def)

lemma Count_bitCount: "Count m = int (bitCount m)"
  by (simp add: Count_def length_GetBits bitCount_def)

lemma maskAvailable_summed: "maskAvailable tot m r = summedAvailability tot m r"
proof -
  let ?qs = "map (resourcesAt tot) (GetBits m)"
  have e: "maskAvailable tot m = foldl Add Map.empty ?qs"
    by (simp add: maskAvailable_def foldl_map)
  have d: "maskAvailable tot m r \<noteq> None \<longleftrightarrow> (\<exists>n\<in>cellsOf m. resourcesAt tot n r \<noteq> None)"
  proof -
    have "r \<in> dom (maskAvailable tot m) \<longleftrightarrow> (\<exists>n\<in>set (GetBits m). r \<in> dom (resourcesAt tot n))"
      unfolding e dom_foldl_Add by simp
    then show ?thesis by (simp add: domIff cellsOf_GetBits)
  qed
  have "sum_list (map (\<lambda>q. valOf q r) ?qs) =
      sum_list (map (\<lambda>n. valOf (resourcesAt tot n) r) (GetBits m))"
    by (simp add: comp_def)
  also have "\<dots> = (\<Sum>n\<in>set (GetBits m). valOf (resourcesAt tot n) r)"
    using GetBits_distinct by (rule sum_list_distinct_conv_sum_set)
  finally have v: "valOf (maskAvailable tot m) r = (\<Sum>n\<in>cellsOf m. valOf (resourcesAt tot n) r)"
    unfolding e valOf_foldl_Add by (simp add: valOf_def cellsOf_GetBits)
  show ?thesis
  proof (cases "maskAvailable tot m r")
    case None
    then show ?thesis using d by (simp add: summedAvailability_def)
  next
    case (Some x)
    then have "valOf (maskAvailable tot m) r = x" by (simp add: valOf_def)
    then show ?thesis using Some d v by (simp add: summedAvailability_def)
  qed
qed

lemma LessThanOrEqual_meets:
  "LessThanOrEqual req (maskAvailable tot m) \<longleftrightarrow> meetsRequest req tot m"
  unfolding LessThanOrEqual_def meetsRequest_def maskAvailable_summed
  by (auto simp: not_less)

lemma feasible_iff:
  "feasible nodes req tot m \<longleftrightarrow>
     m \<noteq> 0 \<and> set (GetBits m) \<subseteq> set nodes \<and> LessThanOrEqual req (maskAvailable tot m)"
  by (simp add: feasible_def cellsOf_GetBits LessThanOrEqual_meets)

text \<open>
  Claim C3, as amended.  For NUMA cells numbered within the width of a mask:
  \<open>generateResourceHints\<close> holds a hint with mask \<open>m\<close> for a resource \<open>r\<close> exactly
  when \<open>r\<close> is requested, \<open>m\<close> is a non-empty set of the cells whose summed
  availability meets the request on every resource that both have, and \<open>r\<close> is among
  the resources of that summed availability; such a hint is preferred exactly when no
  feasible mask has fewer cells than \<open>m\<close>, that is, when its bit count is the least bit
  count of a feasible mask; and every hint has a mask.
\<close>

theorem generateResourceHints_iff:
  assumes "\<forall>n\<in>set numaNodes. 0 \<le> n \<and> n < 64"
  shows "((\<exists>p. \<lparr>NUMANodeAffinity = Some m, Preferred = p\<rparr> \<in>
              set (hintsFor (generateResourceHints numaNodes podRequests totalAvailable) r)) \<longleftrightarrow>
          podRequests r \<noteq> None \<and>
          feasible numaNodes podRequests totalAvailable m \<and>
          summedAvailability totalAvailable m r \<noteq> None)
     \<and> (\<forall>p. \<lparr>NUMANodeAffinity = Some m, Preferred = p\<rparr> \<in>
              set (hintsFor (generateResourceHints numaNodes podRequests totalAvailable) r) \<longrightarrow>
            (p \<longleftrightarrow> (\<forall>m'. feasible numaNodes podRequests totalAvailable m' \<longrightarrow>
                          bitCount m \<le> bitCount m')))
     \<and> (\<forall>h\<in>set (hintsFor (generateResourceHints numaNodes podRequests totalAvailable) r).
            NUMANodeAffinity h \<noteq> None)"
proof (cases "podRequests r")
  case None
  then have "hintsFor (generateResourceHints numaNodes podRequests totalAvailable) r = []"
    by (simp add: no_hint_unrequested hintsFor_def)
  then show ?thesis using None by simp
next
  case (Some q)
  let ?masks = "IterateBitMasks numaNodes"
  let ?sat = "\<lambda>m. LessThanOrEqual podRequests (maskAvailable totalAvailable m)"
  let ?mn = "fst (foldl (\<lambda>st m. hintCallback podRequests totalAvailable m st)
                         (int (length numaNodes), Map.empty) ?masks)"
  have hs: "hintsFor (generateResourceHints numaNodes podRequests totalAvailable) r =
     map (\<lambda>m. \<lparr>NUMANodeAffinity = Some m, Preferred = (Count m = ?mn)\<rparr>)
       (filter (\<lambda>m. ?sat m \<and> maskAvailable totalAvailable m r \<noteq> None) ?masks)"
    using Some
    by (rule hintsFor_generateResourceHints [of podRequests r q numaNodes totalAvailable])
  have feas: "feasible numaNodes podRequests totalAvailable m' \<longleftrightarrow> m' \<in> set ?masks \<and> ?sat m'"
    for m'
    by (auto simp: feasible_iff in_IterateBitMasks [OF assms])
  have mem: "\<lparr>NUMANodeAffinity = Some m, Preferred = p\<rparr> \<in>
        set (hintsFor (generateResourceHints numaNodes podRequests totalAvailable) r) \<longleftrightarrow>
      feasible numaNodes podRequests totalAvailable m \<and>
      summedAvailability totalAvailable m r \<noteq> None \<and> p = (Count m = ?mn)" for p
    unfolding hs feas maskAvailable_summed [symmetric] by auto
  have min: "?mn \<le> int (length numaNodes)"
    and low: "\<forall>m'\<in>set ?masks. ?sat m' \<longrightarrow> ?mn \<le> Count m'"
    and att: "?mn = int (length numaNodes) \<or> (\<exists>m'\<in>set ?masks. ?sat m' \<and> ?mn = Count m')"
    using foldl_min [of podRequests totalAvailable "(int (length numaNodes), Map.empty)" ?masks]
    by simp_all
  have pref: "(Count m = ?mn) \<longleftrightarrow>
      (\<forall>m'. feasible numaNodes podRequests totalAvailable m' \<longrightarrow> bitCount m \<le> bitCount m')"
    if f: "feasible numaNodes podRequests totalAvailable m"
  proof
    assume "Count m = ?mn"
    then have "\<forall>m'. feasible numaNodes podRequests totalAvailable m' \<longrightarrow> Count m \<le> Count m'"
      using low feas by auto
    then show "\<forall>m'. feasible numaNodes podRequests totalAvailable m' \<longrightarrow>
        bitCount m \<le> bitCount m'"
      by (simp add: Count_bitCount)
  next
    assume "\<forall>m'. feasible numaNodes podRequests totalAvailable m' \<longrightarrow> bitCount m \<le> bitCount m'"
    then have least:
      "\<forall>m'. feasible numaNodes podRequests totalAvailable m' \<longrightarrow> Count m \<le> Count m'"
      by (simp add: Count_bitCount)
    have inm: "m \<in> set ?masks" and sat: "?sat m" using f feas by auto
    have le: "?mn \<le> Count m" using low inm sat by auto
    from att show "Count m = ?mn"
    proof
      assume "?mn = int (length numaNodes)"
      then show ?thesis using Count_IterateBitMasks_le [OF inm] le by simp
    next
      assume "\<exists>m'\<in>set ?masks. ?sat m' \<and> ?mn = Count m'"
      then obtain m' where "m' \<in> set ?masks" "?sat m'" "?mn = Count m'" by blast
      then show ?thesis using least feas le by force
    qed
  qed
  have 1: "(\<exists>p. \<lparr>NUMANodeAffinity = Some m, Preferred = p\<rparr> \<in>
              set (hintsFor (generateResourceHints numaNodes podRequests totalAvailable) r)) \<longleftrightarrow>
          podRequests r \<noteq> None \<and>
          feasible numaNodes podRequests totalAvailable m \<and>
          summedAvailability totalAvailable m r \<noteq> None"
    using mem Some by auto
  have 2: "\<forall>p. \<lparr>NUMANodeAffinity = Some m, Preferred = p\<rparr> \<in>
              set (hintsFor (generateResourceHints numaNodes podRequests totalAvailable) r) \<longrightarrow>
            (p \<longleftrightarrow> (\<forall>m'. feasible numaNodes podRequests totalAvailable m' \<longrightarrow>
                          bitCount m \<le> bitCount m'))"
    using mem pref by auto
  have 3: "\<forall>h\<in>set (hintsFor (generateResourceHints numaNodes podRequests totalAvailable) r).
            NUMANodeAffinity h \<noteq> None"
    unfolding hs by auto
  show ?thesis using 1 2 3 by blast
qed

lemma IterateBitMasks_01: "IterateBitMasks [0, 1] = [1, 2, 3]"
  by code_simp

lemma GetBits_2: "GetBits 2 = [1]"
  by code_simp

lemma GetBits_3: "GetBits 3 = [0, 1]"
  by code_simp

lemma maskAvailable2_1: "maskAvailable available2 1 = [''cpu'' \<mapsto> 52000, ''memory'' \<mapsto> 128]"
  by (rule ext) (simp add: maskAvailable_def GetBits_1 resourcesAt_def Add_def available2_def)

lemma maskAvailable2_2: "maskAvailable available2 2 = [''cpu'' \<mapsto> 52000, ''memory'' \<mapsto> 128]"
  by (rule ext) (simp add: maskAvailable_def GetBits_2 resourcesAt_def Add_def available2_def)

lemma maskAvailable2_3: "maskAvailable available2 3 = [''cpu'' \<mapsto> 104000, ''memory'' \<mapsto> 256]"
  by (rule ext) (simp add: maskAvailable_def GetBits_3 resourcesAt_def Add_def available2_def)

lemma LessThanOrEqual_cpu:
  "LessThanOrEqual [''cpu'' \<mapsto> q] b \<longleftrightarrow> (case b ''cpu'' of None \<Rightarrow> True | Some v \<Rightarrow> q \<le> v)"
  by (auto simp: LessThanOrEqual_def split: option.splits if_splits)

text \<open>
  The hints that the test of the repository expects on its node of two NUMA cells with 52
  CPUs each, for a request of four CPUs: each cell alone, preferred, and both together.
  The memory of the cells, which is not requested, has no hint.
\<close>

lemma hints_of_two_cells:
  "generateResourceHints [0, 1] [''cpu'' \<mapsto> 4000] available2 ''cpu'' =
     Some [\<lparr>NUMANodeAffinity = Some 1, Preferred = True\<rparr>,
           \<lparr>NUMANodeAffinity = Some 2, Preferred = True\<rparr>,
           \<lparr>NUMANodeAffinity = Some 3, Preferred = False\<rparr>]"
  by (simp add: generateResourceHints_def IterateBitMasks_01 hintCallback_def Let_def
      LessThanOrEqual_cpu maskAvailable2_1 maskAvailable2_2 maskAvailable2_3
      Count_def GetBits_1 GetBits_2 GetBits_3 markPreferred_def)

text \<open>A request of 60 CPUs is met by the two cells together only.\<close>

lemma hints_need_both_cells:
  "generateResourceHints [0, 1] [''cpu'' \<mapsto> 60000] available2 ''cpu'' =
     Some [\<lparr>NUMANodeAffinity = Some 3, Preferred = True\<rparr>]"
  by (simp add: generateResourceHints_def IterateBitMasks_01 hintCallback_def Let_def
      LessThanOrEqual_cpu maskAvailable2_1 maskAvailable2_2 maskAvailable2_3
      Count_def GetBits_1 GetBits_2 GetBits_3 markPreferred_def)

lemma cellsOf_1: "cellsOf 1 = {0}"
  using cellsOf_GetBits [of 1] by (simp add: GetBits_1)

lemma cellsOf_3: "cellsOf 3 = {0, 1}"
  using cellsOf_GetBits [of 3] by (simp add: GetBits_3)

lemma summedAvailability_cell0:
  "summedAvailability available2 1 r =
     (if r = ''cpu'' then Some 52000 else if r = ''memory'' then Some 128 else None)"
  by (simp add: summedAvailability_def cellsOf_1 available2_def resourcesAt_def valOf_def)

lemma summedAvailability_both_cells:
  "summedAvailability available2 3 r =
     (if r = ''cpu'' then Some 104000 else if r = ''memory'' then Some 256 else None)"
  by (simp add: summedAvailability_def cellsOf_3 available2_def resourcesAt_def valOf_def)

lemma feasible_1: "feasible [0, 1] [''cpu'' \<mapsto> 4000] available2 1"
  by (simp add: feasible_def cellsOf_1 meetsRequest_def summedAvailability_cell0)

lemma bitCount_pos: "m \<noteq> 0 \<Longrightarrow> 1 \<le> bitCount m"
proof -
  assume "m \<noteq> 0"
  then obtain k where "bit m k" by (auto simp: bit_eq_iff)
  then have "int k \<in> set (GetBits m)" by (simp add: set_GetBits)
  then have "GetBits m \<noteq> []" by (metis empty_iff empty_set)
  then have "1 \<le> length (GetBits m)" by (cases "GetBits m") simp_all
  then show ?thesis by (simp add: bitCount_def length_GetBits [symmetric])
qed

lemma bitCount_1: "bitCount 1 = 1"
  using Count_bitCount [of 1] by (simp add: Count_def GetBits_1)

theorem generateResourceHints_iff_witness:
  "\<lparr>NUMANodeAffinity = Some 1, Preferred = True\<rparr> \<in>
     set (hintsFor (generateResourceHints [0, 1] [''cpu'' \<mapsto> 4000] available2) ''cpu'')"
proof -
  have range: "\<forall>n\<in>set [0, 1::int]. 0 \<le> n \<and> n < 64" by simp
  have req: "[''cpu'' \<mapsto> (4000::int)] ''cpu'' \<noteq> None" by simp
  have least: "\<forall>m'. feasible [0, 1] [''cpu'' \<mapsto> 4000] available2 m' \<longrightarrow>
      bitCount 1 \<le> bitCount m'"
    using bitCount_pos by (auto simp: feasible_def bitCount_1)
  have av: "summedAvailability available2 1 ''cpu'' \<noteq> None"
    by (simp add: summedAvailability_cell0)
  note T = generateResourceHints_iff [where numaNodes = "[0, 1]"
        and podRequests = "[''cpu'' \<mapsto> 4000]" and r = "''cpu''" and m = 1
        and totalAvailable = available2, OF range]
  from T [THEN conjunct1] req feasible_1 av obtain p where
    p: "\<lparr>NUMANodeAffinity = Some 1, Preferred = p\<rparr> \<in>
        set (hintsFor (generateResourceHints [0, 1] [''cpu'' \<mapsto> 4000] available2) ''cpu'')"
    by blast
  from T [THEN conjunct2, THEN conjunct1] p have
    "p = (\<forall>m'. feasible [0, 1] [''cpu'' \<mapsto> 4000] available2 m' \<longrightarrow> bitCount 1 \<le> bitCount m')"
    by blast
  then have "p" using least by simp
  then show ?thesis using p by simp
qed

text \<open>
  The claim as stated fails for a resource that is not requested: cell 0 alone meets the
  request of four CPUs and has memory, and there is no hint for memory.
\<close>

theorem hint_for_unrequested_counterexample:
  "feasible [0, 1] [''cpu'' \<mapsto> 4000] available2 1
   \<and> summedAvailability available2 1 ''memory'' = Some 128
   \<and> hintsFor (generateResourceHints [0, 1] [''cpu'' \<mapsto> 4000] available2) ''memory'' = []"
proof -
  have "generateResourceHints [0, 1] [''cpu'' \<mapsto> 4000] available2 ''memory'' = None"
    by (rule no_hint_unrequested) simp
  then show ?thesis
    using feasible_1 by (simp add: summedAvailability_cell0 hintsFor_def)
qed

section \<open>Further checks of the model\<close>

lemma allocateOnCell_example: "allocateOnCell [''cpu'' \<mapsto> 4000]
      [''cpu'' \<mapsto> 4000, ''koordinator.sh/gpu-memory'' \<mapsto> 10] {} =
      ([''cpu'' \<mapsto> 0], [''cpu'' \<mapsto> 0, ''koordinator.sh/gpu-memory'' \<mapsto> 10], {''cpu''},
       [''cpu'' \<mapsto> 4000])"
proof -
  have 1: "(\<lambda>resourceName.
         case ([''cpu'' \<mapsto> 4000, ''koordinator.sh/gpu-memory'' \<mapsto> 10] resourceName,
               [''cpu'' \<mapsto> 4000] resourceName) of
           (Some quantity, Some allocatableQuantity) \<Rightarrow>
             Some (fst (allocateRes allocatableQuantity quantity))
         | _ \<Rightarrow> [''cpu'' \<mapsto> 4000] resourceName) = [''cpu'' \<mapsto> 0]"
    by (rule ext) (simp add: allocateRes_def)
  have 2: "(\<lambda>resourceName.
         case ([''cpu'' \<mapsto> 4000, ''koordinator.sh/gpu-memory'' \<mapsto> 10] resourceName,
               [''cpu'' \<mapsto> 4000] resourceName) of
           (Some quantity, Some allocatableQuantity) \<Rightarrow>
             Some (fst (snd (allocateRes allocatableQuantity quantity)))
         | _ \<Rightarrow> [''cpu'' \<mapsto> 4000, ''koordinator.sh/gpu-memory'' \<mapsto> 10] resourceName) =
       [''cpu'' \<mapsto> 0, ''koordinator.sh/gpu-memory'' \<mapsto> 10]"
    by (rule ext) (simp add: allocateRes_def)
  have 3: "{resourceName.
        [''cpu'' \<mapsto> (4000::int), ''koordinator.sh/gpu-memory'' \<mapsto> 10] resourceName \<noteq> None \<and>
        [''cpu'' \<mapsto> (4000::int)] resourceName \<noteq> None} = {''cpu''}"
    by (auto split: if_splits)
  have 4: "(\<lambda>resourceName.
         case ([''cpu'' \<mapsto> 4000, ''koordinator.sh/gpu-memory'' \<mapsto> 10] resourceName,
               [''cpu'' \<mapsto> 4000] resourceName) of
           (Some quantity, Some allocatableQuantity) \<Rightarrow>
             (let allocated = snd (snd (allocateRes allocatableQuantity quantity))
              in if allocated \<noteq> 0 then Some allocated else None)
         | _ \<Rightarrow> None) = [''cpu'' \<mapsto> 4000]"
    by (rule ext) (simp add: allocateRes_def)
  show ?thesis
    unfolding allocateOnCell_def 1 2 3 4 by simp
qed

text \<open>
  As in the test of the repository, a request of four CPUs and of a resource that no
  NUMA cell has is served with the CPUs of cell 0, and without an error.
\<close>

lemma allocate_ignores_unknown_resource:
  "fst (allocateResourcesByHint manager0 node0 pod0 request2) =
     Inr [\<lparr>Node = 0, Resources = [''cpu'' \<mapsto> 4000]\<rparr>]"
proof -
  let ?tot = "fst (fst (resourceManager_getAvailableNUMANodeResources manager0 ''node''
      options0 Map.empty))"
  have av: "resourcesAt ?tot 0 = [''cpu'' \<mapsto> 4000]"
    by (rule available_manager0)
  have some: "?tot 0 \<noteq> None"
    by (simp add: resourceManager_getAvailable_fst getAvailableNUMANodeResources_reusable_def
        options0_simps Let_def)
  have rq2: "requests request2 = [''cpu'' \<mapsto> 4000, ''koordinator.sh/gpu-memory'' \<mapsto> 10]"
    by (simp add: request2_def)
  have nz: "\<not> IsZero [''cpu'' \<mapsto> (4000::int)]"
    unfolding IsZero_def by (auto intro!: exI [of _ "''cpu''"])
  have nz2: "\<not> IsZero [''cpu'' \<mapsto> (0::int), ''koordinator.sh/gpu-memory'' \<mapsto> 10]"
    unfolding IsZero_def by (auto intro!: exI [of _ "''koordinator.sh/gpu-memory''"])
  have loop: "allocateByBits [0] ?tot (requests request2) {} [] =
      ([''cpu'' \<mapsto> 0, ''koordinator.sh/gpu-memory'' \<mapsto> 10], {''cpu''},
       [\<lparr>Node = 0, Resources = [''cpu'' \<mapsto> 4000]\<rparr>])"
    by (simp add: av rq2 allocateOnCell_example nz nz2 Let_def)
  have h: "NUMANodeAffinity (hint request2) = Some 1" by (simp add: request2_def)
  have t: "topologyOptions request2 = options0" by (simp add: request2_def)
  have u: "reusableResources request2 = Map.empty" by (simp add: request2_def)
  have ne: "TopologyOptions.NUMANodeResources (topologyOptions request2) \<noteq> []"
    by (simp add: t options0_simps)
  have rq: "requested request2 = requests request2" by (simp add: requested_def request2_def)
  have n: "corev1_Node.Name node0 = ''node''" by (simp add: node0_def)
  have reasons: "{r. \<exists>q. [''cpu'' \<mapsto> (0::int), ''koordinator.sh/gpu-memory'' \<mapsto> 10] r = Some q \<and>
      r \<in> {''cpu''} \<and> q \<noteq> 0} = {}"
    by (auto split: if_splits)
  show ?thesis
    unfolding allocateResourcesByHint_fst [OF ne h] Let_def t u n GetBits_1 rq loop
    by (simp add: reasons)
qed

text \<open>
  With 2000 of the 4000 CPU of cell 0 allocated, a request of 3000 CPU that brings 1000
  reusable CPU with it is served.
\<close>

lemma allocate_with_reusable:
  "fst (allocateResourcesByHint (Update manager0 ''node'' podA) node0 pod0 request4) =
     Inr [\<lparr>Node = 0, Resources = [''cpu'' \<mapsto> 3000]\<rparr>]"
proof -
  let ?tot = "fst (fst (resourceManager_getAvailableNUMANodeResources
      (Update manager0 ''node'' podA) ''node'' options0 [0 \<mapsto> [''cpu'' \<mapsto> 1000]]))"
  have av: "resourcesAt ?tot 0 = [''cpu'' \<mapsto> 3000]"
    by (rule available_reusable)
  have cell: "allocateOnCell [''cpu'' \<mapsto> 3000] [''cpu'' \<mapsto> 3000] {} =
      ([''cpu'' \<mapsto> 0], [''cpu'' \<mapsto> 0], {''cpu''}, [''cpu'' \<mapsto> 3000])"
    by (auto simp: allocateOnCell_def allocateRes_def fun_eq_iff)
  have z: "IsZero [''cpu'' \<mapsto> (0::int)]" by (simp add: IsZero_def)
  have nz: "\<not> IsZero [''cpu'' \<mapsto> (3000::int)]"
    unfolding IsZero_def by (auto intro!: exI [of _ "''cpu''"])
  have rq4: "requests request4 = [''cpu'' \<mapsto> 3000]" by (simp add: request4_def)
  have loop: "allocateByBits [0] ?tot (requests request4) {} [] =
      ([''cpu'' \<mapsto> 0], {''cpu''}, [\<lparr>Node = 0, Resources = [''cpu'' \<mapsto> 3000]\<rparr>])"
    by (simp add: av rq4 cell z nz Let_def)
  have h: "NUMANodeAffinity (hint request4) = Some 1" by (simp add: request4_def request3_def)
  have t: "topologyOptions request4 = options0" by (simp add: request4_def request3_def)
  have u: "reusableResources request4 = [0 \<mapsto> [''cpu'' \<mapsto> 1000]]"
    by (simp add: request4_def request3_def)
  have ne: "TopologyOptions.NUMANodeResources (topologyOptions request4) \<noteq> []"
    by (simp add: t options0_simps)
  have rq: "requested request4 = requests request4"
    by (simp add: requested_def request4_def request3_def)
  have n: "corev1_Node.Name node0 = ''node''" by (simp add: node0_def)
  have reasons: "{r. \<exists>q. [''cpu'' \<mapsto> (0::int)] r = Some q \<and> r \<in> {''cpu''} \<and> q \<noteq> 0} = {}"
    by (auto split: if_splits)
  show ?thesis
    unfolding allocateResourcesByHint_fst [OF ne h] Let_def t u n GetBits_1 rq loop
    by (simp add: reasons)
qed

end
